(* ===== verification/Prelude.thy ===== *)
theory Prelude
  imports Main "HOL-Library.Multiset"
begin

text \<open>
  Shared vocabulary of the development: the type names of the model (identifiers,
  timestamps, the message carried by a rejected promise), the collections of
  rewrite rules the component theories fill, and generic lemmas on lists, options and
  sums that the proofs of several components use.
\<close>

section \<open>Names of the model's types\<close>

type_synonym oid = nat \<comment> \<open>a MongoDB ObjectId, read as the number its 24 hex digits spell\<close>
type_synonym uid = nat \<comment> \<open>the \<open>id\<close> of an authenticated user (\<open>req.user.id\<close>)\<close>
type_synonym timestamp = nat \<comment> \<open>milliseconds, as Mongoose's \<open>createdAt\<close>\<close>
type_synonym js_error = string \<comment> \<open>\<open>error.message\<close> of a thrown or rejected error\<close>

text \<open>
  An awaited call either rejects with an error message (\<open>Inl\<close>) or resolves with a
  value (\<open>Inr\<close>); \<open>try\<close>/\<open>catch\<close> in the handlers becomes a case split on it.
\<close>

type_synonym 'a outcome = "js_error + 'a"

text \<open>A line on the console: \<open>console.log(s)\<close>, \<open>console.error(s)\<close>, and
  \<open>console.error(s, error)\<close> with an error object.\<close>

datatype console_line = Stdout string | Stderr string | StderrError string js_error

section \<open>Rule collections\<close>

named_theorems js_simps \<open>evaluation rules of the JavaScript built-ins the code calls\<close>
named_theorems store_simps \<open>evaluation rules of the document store operations\<close>
named_theorems handler_defs \<open>definitions of the route handlers, unfolded together\<close>

section \<open>Lists\<close>

lemma length_take_drop_le [simp]: "length (take n (drop m xs)) \<le> n"
  by simp

lemma set_take_drop_subset: "set (take n (drop m xs)) \<subseteq> set xs"
  by (meson set_drop_subset set_take_subset subset_trans)

lemma distinct_map_filter_keep [intro]: "distinct (map f xs) \<Longrightarrow> distinct (map f (filter P xs))"
  by (induction xs) auto

lemma find_Some_set: "find P xs = Some x \<Longrightarrow> x \<in> set xs \<and> P x"
  by (induction xs) (auto split: if_splits)

lemma rev_dropWhile_rev_prefix: "\<exists>zs. xs = rev (dropWhile P (rev xs)) @ zs"
proof -
  have "rev xs = takeWhile P (rev xs) @ dropWhile P (rev xs)" by simp
  then have "xs = rev (dropWhile P (rev xs)) @ rev (takeWhile P (rev xs))"
    by (metis rev_append rev_rev_ident)
  then show ?thesis by blast
qed

lemma find_distinct_key:
  "distinct (map f xs) \<Longrightarrow> x \<in> set xs \<Longrightarrow> find (\<lambda>y. f y = f x) xs = Some x"
  by (induction xs) (auto simp: image_iff)

text \<open>Appending an element of strictly least key puts it first in the sorted list.\<close>

lemma sort_key_snoc_least:
  "\<forall>x \<in> set xs. f a < f x \<Longrightarrow> sort_key f (xs @ [a]) = a # sort_key f xs"
  by (induction xs) auto

text \<open>The end of the window \<open>[(p - 1) * l, p * l)\<close> lies before the end of the list.\<close>

lemma window_hasMore:
  "0 < p \<Longrightarrow> (p - 1) * l + length (take l (drop ((p - 1) * l) xs)) < length xs \<longleftrightarrow> p * l < length xs"
  by (cases p) (auto simp: min_def)

section \<open>Sums\<close>

end
