(* ===== verification/JS_Runtime.thy ===== *)
theory JS_Runtime
  imports Prelude Complex_Main
begin

text \<open>
  The JavaScript built-ins that \<open>src/server/routes/mayorAlert.js\<close> and
  \<open>src/server/config/database.js\<close> call, on the values the code feeds them: JSON and
  query-string values, truthiness (\<open>!x\<close>, \<open>x || d\<close>), \<open>String.prototype.trim\<close>,
  \<open>parseInt\<close> without a radix, \<open>Math.ceil\<close> of a quotient, and the decimal form of an
  integer (template literals). Numbers that the code computes from \<open>parseInt\<close> are
  integers, modelled as \<open>int\<close> (exact below 2^53, which is where a JavaScript number
  keeps every integer).
\<close>

section \<open>Values\<close>

text \<open>
  A value of a parsed JSON body or of an Express query string. \<open>JUndefined\<close> is what a
  read of an absent property returns. JSON numbers are modelled by their integer values.
\<close>

datatype jvalue =
    JUndefined
  | JNull
  | JBool bool
  | JNum int
  | JStr string
  | JArr "jvalue list"
  | JObj "(string \<times> jvalue) list"

text \<open>Property read \<open>obj.k\<close> on an object given by its key/value pairs.\<close>

definition js_get :: "(string \<times> jvalue) list \<Rightarrow> string \<Rightarrow> jvalue" where
  "js_get obj k = (case map_of obj k of None \<Rightarrow> JUndefined | Some v \<Rightarrow> v)"

section \<open>Truthiness\<close>

text \<open>\<open>!x\<close> is \<open>\<not> js_truthy x\<close>. The falsy values are undefined, null, false, 0 and ''''.\<close>

fun js_truthy :: "jvalue \<Rightarrow> bool" where
  "js_truthy JUndefined = False"
| "js_truthy JNull = False"
| "js_truthy (JBool b) = b"
| "js_truthy (JNum n) = (n \<noteq> 0)"
| "js_truthy (JStr s) = (s \<noteq> [])"
| "js_truthy (JArr _) = True"
| "js_truthy (JObj _) = True"

text \<open>
  \<open>parseInt(x) || d\<close>: \<open>parseInt\<close> returns a number or NaN (\<open>None\<close>); NaN and 0 are
  falsy, so both give the default.
\<close>

definition js_or_default :: "int option \<Rightarrow> int \<Rightarrow> int" where
  "js_or_default r d = (case r of None \<Rightarrow> d | Some n \<Rightarrow> if n = 0 then d else n)"

section \<open>Whitespace and trim\<close>

text \<open>
  The white space and line terminators that \<open>trim\<close> and \<open>parseInt\<close> skip, restricted to
  ASCII: tab, line feed, vertical tab, form feed, carriage return and space.
\<close>

definition js_is_ws :: "char \<Rightarrow> bool" where
  "js_is_ws c \<longleftrightarrow> of_char c \<in> {9, 10, 11, 12, 13, 32 :: nat}"

definition js_trim_start :: "string \<Rightarrow> string" where
  "js_trim_start s = dropWhile js_is_ws s"

definition js_trim :: "string \<Rightarrow> string" where
  "js_trim s = rev (dropWhile js_is_ws (rev (dropWhile js_is_ws s)))"

section \<open>parseInt\<close>

text \<open>
  \<open>parseInt(s)\<close> with no radix (ECMA-262, 19.2.5): skip leading white space, read an
  optional sign, take radix 16 after a \<open>0x\<close>/\<open>0X\<close> prefix and radix 10 otherwise,
  then read the longest prefix of digits of that radix; no digit gives NaN.
\<close>

definition digit_value :: "nat \<Rightarrow> char \<Rightarrow> nat option" where
  "digit_value r c =
     (let n = of_char c :: nat;
          v = (if 48 \<le> n \<and> n \<le> 57 then Some (n - 48)
               else if 97 \<le> n \<and> n \<le> 122 then Some (n - 87)
               else if 65 \<le> n \<and> n \<le> 90 then Some (n - 55)
               else None)
      in case v of Some d \<Rightarrow> if d < r then Some d else None | None \<Rightarrow> None)"

fun take_digits :: "nat \<Rightarrow> string \<Rightarrow> nat list" where
  "take_digits r [] = []"
| "take_digits r (c # cs) =
     (case digit_value r c of None \<Rightarrow> [] | Some d \<Rightarrow> d # take_digits r cs)"

definition digits_to_nat :: "nat \<Rightarrow> nat list \<Rightarrow> nat" where
  "digits_to_nat r ds = foldl (\<lambda>acc d. acc * r + d) 0 ds"

definition parse_unsigned :: "string \<Rightarrow> nat option" where
  "parse_unsigned s =
     (let (r, body) = (case s of
                         c0 # c1 # rest \<Rightarrow>
                           if c0 = CHR ''0'' \<and> (c1 = CHR ''x'' \<or> c1 = CHR ''X'')
                           then (16, rest) else (10, s)
                       | _ \<Rightarrow> (10, s));
          ds = take_digits r body
      in if ds = [] then None else Some (digits_to_nat r ds))"

definition js_parse_int_str :: "string \<Rightarrow> int option" where
  "js_parse_int_str s =
     (case js_trim_start s of
        c # rest \<Rightarrow>
          if c = CHR ''-'' then map_option (\<lambda>n. - int n) (parse_unsigned rest)
          else if c = CHR ''+'' then map_option int (parse_unsigned rest)
          else map_option int (parse_unsigned (c # rest))
      | [] \<Rightarrow> None)"

section \<open>Number to string\<close>

definition dec_digit :: "nat \<Rightarrow> char" where
  "dec_digit d = char_of (48 + d)"

fun nat_to_dec :: "nat \<Rightarrow> string" where
  "nat_to_dec n = (if n < 10 then [dec_digit n] else nat_to_dec (n div 10) @ [dec_digit (n mod 10)])"

declare nat_to_dec.simps [simp del]

definition js_int_to_string :: "int \<Rightarrow> string" where
  "js_int_to_string i = (if i < 0 then CHR ''-'' # nat_to_dec (nat (- i)) else nat_to_dec (nat i))"

text \<open>
  \<open>String(v)\<close>, the conversion \<open>parseInt\<close> applies to its argument first. An array is
  joined with commas, undefined and null elements giving the empty string.
\<close>

fun js_join :: "string list \<Rightarrow> string" where
  "js_join [] = []"
| "js_join [s] = s"
| "js_join (s # ss) = s @ CHR '','' # js_join ss"

fun js_to_string :: "jvalue \<Rightarrow> string" where
  "js_to_string JUndefined = ''undefined''"
| "js_to_string JNull = ''null''"
| "js_to_string (JBool b) = (if b then ''true'' else ''false'')"
| "js_to_string (JNum n) = js_int_to_string n"
| "js_to_string (JStr s) = s"
| "js_to_string (JArr vs) =
     js_join (map (\<lambda>v. if v = JUndefined \<or> v = JNull then [] else js_to_string v) vs)"
| "js_to_string (JObj _) = ''[object Object]''"

definition js_parse_int :: "jvalue \<Rightarrow> int option" where
  "js_parse_int v = js_parse_int_str (js_to_string v)"

section \<open>Math.ceil of a quotient\<close>

text \<open>
  \<open>Math.ceil(a / b)\<close> for integers \<open>a\<close> and \<open>b \<noteq> 0\<close>; HOL's \<open>div\<close> on \<open>int\<close> is the
  floor of the quotient, so the ceiling is \<open>- ((- a) div b)\<close>.
\<close>

definition js_ceil_div :: "int \<Rightarrow> int \<Rightarrow> int" where
  "js_ceil_div a b = - ((- a) div b)"

text \<open>The rules that evaluate the built-ins on concrete values.\<close>

declare js_get_def [js_simps] js_parse_int_def [js_simps] js_parse_int_str_def [js_simps]
  js_trim_start_def [js_simps] js_trim_def [js_simps] js_is_ws_def [js_simps]
  parse_unsigned_def [js_simps] digit_value_def [js_simps] digits_to_nat_def [js_simps]
  js_or_default_def [js_simps]

section \<open>Lemmas: truthiness\<close>

lemma js_or_default_nonzero: "d \<noteq> 0 \<Longrightarrow> js_or_default r d \<noteq> 0"
  by (simp add: js_or_default_def split: option.splits)

section \<open>Lemmas: trim\<close>

lemma js_trim_hd: "js_trim s \<noteq> [] \<Longrightarrow> \<not> js_is_ws (hd (js_trim s))"
proof -
  assume ne: "js_trim s \<noteq> []"
  let ?ys = "dropWhile js_is_ws s"
  obtain zs where split: "?ys = js_trim s @ zs"
    using rev_dropWhile_rev_prefix [of ?ys js_is_ws] by (auto simp: js_trim_def)
  with ne have "?ys \<noteq> []" by auto
  then have "\<not> js_is_ws (hd ?ys)" by (rule hd_dropWhile)
  with ne split show ?thesis by simp
qed

lemma js_trim_last: "js_trim s \<noteq> [] \<Longrightarrow> \<not> js_is_ws (last (js_trim s))"
proof -
  assume ne: "js_trim s \<noteq> []"
  let ?zs = "dropWhile js_is_ws (rev (dropWhile js_is_ws s))"
  have "?zs \<noteq> []" using ne by (simp add: js_trim_def)
  then have "\<not> js_is_ws (hd ?zs)" by (rule hd_dropWhile)
  then show ?thesis using \<open>?zs \<noteq> []\<close> by (simp add: js_trim_def last_rev)
qed

lemma js_trim_idem: "js_trim (js_trim s) = js_trim s"
proof (cases "js_trim s = []")
  case True then show ?thesis by (simp only: True) (simp add: js_trim_def)
next
  case False
  have lead: "dropWhile js_is_ws (js_trim s) = js_trim s"
    using False js_trim_hd by (simp add: dropWhile_eq_self_iff)
  have trail: "dropWhile js_is_ws (rev (js_trim s)) = rev (js_trim s)"
    using False js_trim_last by (simp add: dropWhile_eq_self_iff hd_rev)
  show ?thesis
    by (subst js_trim_def) (simp add: lead trail)
qed

section \<open>Lemmas: Math.ceil\<close>

lemma js_ceil_div_real: "js_ceil_div a b = \<lceil>real_of_int a / real_of_int b\<rceil>"
proof -
  have "\<lfloor>real_of_int (- a) / real_of_int b\<rfloor> = - a div b" by (rule floor_divide_of_int_eq)
  then show ?thesis by (simp add: js_ceil_div_def ceiling_def)
qed

section \<open>Lemmas: parseInt reads back the decimal form\<close>

lemma digit_value_dec_digit: "d < 10 \<Longrightarrow> digit_value 10 (dec_digit d) = Some d"
  by (simp add: digit_value_def dec_digit_def Let_def)

lemma dec_digit_not_ws: "d < 10 \<Longrightarrow> \<not> js_is_ws (dec_digit d)"
  by (simp add: js_is_ws_def dec_digit_def)

lemma of_char_dec_digit: "d < 10 \<Longrightarrow> of_char (dec_digit d) = (48 + d :: nat)"
  by (simp add: dec_digit_def)

lemma dec_digit_eqD: "d < 10 \<Longrightarrow> dec_digit d = c \<Longrightarrow> 48 \<le> (of_char c :: nat) \<and> (of_char c :: nat) \<le> 57"
  by (auto simp: of_char_dec_digit dest: sym)

lemma set_nat_to_dec: "set (nat_to_dec n) \<subseteq> dec_digit ` {..<10}"
proof (induction n rule: nat_to_dec.induct)
  case (1 n)
  then show ?case by (subst nat_to_dec.simps) auto
qed

lemma nat_to_dec_digits: "c \<in> set (nat_to_dec n) \<Longrightarrow> \<exists>d < 10. c = dec_digit d"
  using set_nat_to_dec by blast

lemma nat_to_dec_ne: "nat_to_dec n \<noteq> []"
  by (subst nat_to_dec.simps) simp

lemma take_digits_append:
  "\<forall>c \<in> set xs. digit_value r c \<noteq> None \<Longrightarrow> take_digits r (xs @ ys) = take_digits r xs @ take_digits r ys"
  by (induction xs) (auto split: option.splits)

lemma take_digits_nat_to_dec: "digits_to_nat 10 (take_digits 10 (nat_to_dec n)) = n"
proof (induction n rule: nat_to_dec.induct)
  case (1 n)
  show ?case
  proof (cases "n < 10")
    case True
    then show ?thesis by (simp add: nat_to_dec.simps digit_value_dec_digit digits_to_nat_def)
  next
    case False
    have all: "\<forall>c \<in> set (nat_to_dec (n div 10)). digit_value 10 c \<noteq> None"
      using nat_to_dec_digits digit_value_dec_digit by fastforce
    have "take_digits 10 (nat_to_dec n) = take_digits 10 (nat_to_dec (n div 10)) @ [n mod 10]"
      using False by (subst nat_to_dec.simps) (simp add: take_digits_append [OF all] digit_value_dec_digit)
    then show ?thesis
      using False "1.IH" by (simp add: digits_to_nat_def)
  qed
qed

lemma take_digits_nat_to_dec_ne: "take_digits 10 (nat_to_dec n) \<noteq> []"
proof -
  obtain c cs where cs: "nat_to_dec n = c # cs" using nat_to_dec_ne by (cases "nat_to_dec n") auto
  then obtain d where "d < 10" "c = dec_digit d" using nat_to_dec_digits by (metis list.set_intros(1))
  then show ?thesis using cs by (simp add: digit_value_dec_digit)
qed

lemma nat_to_dec_no_hex_prefix:
  "nat_to_dec n = c0 # c1 # rest \<Longrightarrow> c1 \<noteq> CHR ''x'' \<and> c1 \<noteq> CHR ''X''"
proof -
  assume "nat_to_dec n = c0 # c1 # rest"
  then have "c1 \<in> set (nat_to_dec n)" by simp
  then obtain d where "d < 10" "c1 = dec_digit d" using nat_to_dec_digits by blast
  then show ?thesis by (auto dest!: dec_digit_eqD [OF \<open>d < 10\<close>])
qed

lemma parse_unsigned_nat_to_dec: "parse_unsigned (nat_to_dec n) = Some n"
proof -
  have "parse_unsigned (nat_to_dec n) =
        (if take_digits 10 (nat_to_dec n) = [] then None
         else Some (digits_to_nat 10 (take_digits 10 (nat_to_dec n))))"
    unfolding parse_unsigned_def
    by (auto split: list.splits dest: nat_to_dec_no_hex_prefix)
  then show ?thesis by (simp add: take_digits_nat_to_dec take_digits_nat_to_dec_ne)
qed

lemma js_parse_int_str_roundtrip: "js_parse_int_str (js_int_to_string i) = Some i"
proof -
  obtain c cs where cs: "nat_to_dec (nat \<bar>i\<bar>) = c # cs"
    using nat_to_dec_ne by (cases "nat_to_dec (nat \<bar>i\<bar>)") auto
  then obtain d where d: "d < 10" "c = dec_digit d" using nat_to_dec_digits by (metis list.set_intros(1))
  then have c: "\<not> js_is_ws c" "c \<noteq> CHR ''-''" "c \<noteq> CHR ''+''"
    using dec_digit_not_ws by (auto dest!: dec_digit_eqD [OF \<open>d < 10\<close>])
  show ?thesis
  proof (cases "i < 0")
    case True
    then show ?thesis
      by (simp add: js_parse_int_str_def js_int_to_string_def js_trim_start_def js_is_ws_def
          parse_unsigned_nat_to_dec)
  next
    case False
    then have "js_int_to_string i = c # cs" using cs by (simp add: js_int_to_string_def)
    then show ?thesis using c False cs parse_unsigned_nat_to_dec [of "nat i"]
      by (simp add: js_parse_int_str_def js_trim_start_def)
  qed
qed

section \<open>Properties of the built-ins\<close>

end
