(* ===== verification/Store.thy ===== *)
theory Store
  imports JS_Runtime
begin

text \<open>
  The document store as the route handlers of \<open>src/server/routes/mayorAlert.js\<close> see
  it through Mongoose: the \<open>MayorAlert\<close> collection, the \<open>User\<close> collection, and one
  definition per call the handlers make (\<open>find().sort().skip().limit()\<close>,
  \<open>countDocuments()\<close>, \<open>findById\<close>, \<open>save\<close>, \<open>remove\<close>, \<open>User.find\<close>). The schemas live
  outside \<open>src/\<close>; the fields and the validation of an alert follow the specification
  (title and message required and non-empty). A call can reject: the environment's
  failures are part of the state (\<open>faults\<close>), so that every \<open>catch\<close> branch of a handler is
  reachable in the model.
\<close>

section \<open>Data\<close>

datatype store_call = FindAlerts | CountAlerts | FindAlertById | RemoveAlert | SaveAlert | FindUsers

record alert =
  alert_id :: oid
  title :: string
  message :: string
  sentBy :: uid
  createdAt :: timestamp

record user =
  user_id :: uid
  role :: string

text \<open>
  The store: the alerts in natural (insertion) order, the users, the next ObjectId
  Mongoose hands out, the clock that stamps \<open>createdAt\<close>, the calls that currently reject
  (with their error message), and whether the installed Mongoose still has
  \<open>Document.prototype.remove\<close> (removed in Mongoose 7).
\<close>

record db =
  alerts :: "alert list"
  users :: "user list"
  next_oid :: oid
  clock :: timestamp
  faults :: "(store_call \<times> js_error) list"
  doc_remove :: bool

definition with_fault :: "db \<Rightarrow> store_call \<Rightarrow> 'a outcome \<Rightarrow> 'a outcome" where
  "with_fault d c r = (case map_of (faults d) c of Some e \<Rightarrow> Inl e | None \<Rightarrow> r)"

section \<open>Queries on alerts\<close>

text \<open>\<open>.sort({ createdAt: -1 })\<close>: newest first; MongoDB leaves the order of ties open,
  the model keeps them in natural order.\<close>

definition sort_createdAt_desc :: "alert list \<Rightarrow> alert list" where
  "sort_createdAt_desc xs = sort_key (\<lambda>a. - int (createdAt a)) xs"

text \<open>\<open>.limit(n)\<close>: 0 means no limit, a negative limit returns at most \<open>|n|\<close> documents.\<close>

definition mongo_limit :: "int \<Rightarrow> 'a list \<Rightarrow> 'a list" where
  "mongo_limit n xs = (if n = 0 then xs else take (nat \<bar>n\<bar>) xs)"

text \<open>\<open>.skip(k)\<close>: the server rejects a negative skip.\<close>

definition find_alerts_page :: "db \<Rightarrow> int \<Rightarrow> int \<Rightarrow> alert list outcome" where
  "find_alerts_page d k n =
     with_fault d FindAlerts
       (if k < 0 then Inl ''Skip value must be non-negative''
        else Inr (mongo_limit n (drop (nat k) (sort_createdAt_desc (alerts d)))))"

definition count_documents :: "db \<Rightarrow> nat outcome" where
  "count_documents d = with_fault d CountAlerts (Inr (length (alerts d)))"

text \<open>
  \<open>findById(s)\<close> first casts \<open>s\<close> to an ObjectId and throws a \<open>CastError\<close> when it cannot,
  before any query is sent. The bson library of the Mongoose versions that still have
  \<open>Document.remove\<close> (up to 6) accepts 24 hexadecimal digits, and also any 12-character
  string whose UTF-8 encoding is 12 bytes, whose bytes then are the id.
\<close>

definition cast_oid :: "string \<Rightarrow> oid option" where
  "cast_oid s =
     (let ds = take_digits 16 s
      in if length s = 24 \<and> length ds = 24 then Some (digits_to_nat 16 ds)
         else if length s = 12 \<and> list_all (\<lambda>c. of_char c < (128::nat)) s
         then Some (digits_to_nat 256 (map of_char s))
         else None)"

definition find_by_id :: "db \<Rightarrow> string \<Rightarrow> alert option outcome" where
  "find_by_id d s =
     (case cast_oid s of
        None \<Rightarrow> Inl (''Cast to ObjectId failed for value \"'' @ s @ ''\" (type string) at path \"_id\" for model \"MayorAlert\"'')
      | Some i \<Rightarrow> with_fault d FindAlertById (Inr (find (\<lambda>a. alert_id a = i) (alerts d))))"

section \<open>Writes\<close>

text \<open>\<open>alert.remove()\<close>: deletes the document with the alert's id; deleting a document
  that is already gone is no error.\<close>

definition remove_alert :: "db \<Rightarrow> alert \<Rightarrow> db outcome" where
  "remove_alert d a =
     (if \<not> doc_remove d then Inl ''alert.remove is not a function''
      else with_fault d RemoveAlert
             (Inr (d\<lparr>alerts := filter (\<lambda>b. alert_id b \<noteq> alert_id a) (alerts d)\<rparr>)))"

text \<open>\<open>new MayorAlert({...})\<close>: the document gets a fresh ObjectId when it is built.\<close>

definition new_alert :: "db \<Rightarrow> string \<Rightarrow> string \<Rightarrow> uid \<Rightarrow> alert \<times> db" where
  "new_alert d t m u =
     (\<lparr>alert_id = next_oid d, title = t, message = m, sentBy = u, createdAt = 0\<rparr>,
      d\<lparr>next_oid := Suc (next_oid d)\<rparr>)"

text \<open>\<open>alert.save()\<close>: schema validation (title and message required), then the insert,
  which stamps \<open>createdAt\<close> with the clock.\<close>

definition alert_valid :: "alert \<Rightarrow> bool" where
  "alert_valid a \<longleftrightarrow> title a \<noteq> [] \<and> message a \<noteq> []"

definition save_alert :: "db \<Rightarrow> alert \<Rightarrow> (alert \<times> db) outcome" where
  "save_alert d a =
     (if \<not> alert_valid a then Inl ''MayorAlert validation failed''
      else with_fault d SaveAlert
             (let a' = a\<lparr>createdAt := clock d\<rparr> in Inr (a', d\<lparr>alerts := alerts d @ [a']\<rparr>)))"

section \<open>Users\<close>

text \<open>\<open>User.find({ role: { $in: roles } })\<close>.\<close>

definition find_users_by_role :: "db \<Rightarrow> string list \<Rightarrow> user list outcome" where
  "find_users_by_role d roles = with_fault d FindUsers (Inr (filter (\<lambda>u. role u \<in> set roles) (users d)))"

section \<open>The collection as a map, and its invariant\<close>

text \<open>
  The abstract view of the collection: the alert stored under each ObjectId. The
  invariant says that ids are unique and below the next id handed out, timestamps are
  not in the future, and every stored alert passed validation with trimmed fields.
\<close>

definition alert_map :: "db \<Rightarrow> oid \<rightharpoonup> alert" where
  "alert_map d = map_of (map (\<lambda>a. (alert_id a, a)) (alerts d))"

definition alerts_wf :: "db \<Rightarrow> bool" where
  "alerts_wf d \<longleftrightarrow> distinct (map alert_id (alerts d)) \<and>
     (\<forall>a \<in> set (alerts d). alert_id a < next_oid d \<and> createdAt a \<le> clock d \<and> alert_valid a \<and>
        js_trim (title a) = title a \<and> js_trim (message a) = message a)"

section \<open>Lemmas on the store calls\<close>

lemma with_fault_ok [simp, store_simps]: "map_of (faults d) c = None \<Longrightarrow> with_fault d c r = r"
  by (simp add: with_fault_def)

lemma with_fault_fail [simp, store_simps]: "map_of (faults d) c = Some e \<Longrightarrow> with_fault d c r = Inl e"
  by (simp add: with_fault_def)

lemma sorted_createdAt_desc:
  "sorted_wrt (\<lambda>a b. createdAt b \<le> createdAt a) (sort_createdAt_desc xs)"
proof -
  have "sorted (map (\<lambda>a. - int (createdAt a)) (sort_key (\<lambda>a. - int (createdAt a)) xs))"
    by (rule sorted_sort_key)
  then show ?thesis by (simp add: sort_createdAt_desc_def sorted_map)
qed

lemma mset_sort_createdAt_desc [simp]: "mset (sort_createdAt_desc xs) = mset xs"
  by (simp add: sort_createdAt_desc_def)

lemma set_sort_createdAt_desc [simp]: "set (sort_createdAt_desc xs) = set xs"
  by (simp add: sort_createdAt_desc_def)

lemma length_sort_createdAt_desc [simp]: "length (sort_createdAt_desc xs) = length xs"
  by (simp add: sort_createdAt_desc_def)

lemma alert_map_Some_iff:
  "distinct (map alert_id xs) \<Longrightarrow> map_of (map (\<lambda>a. (alert_id a, a)) xs) i = Some a \<longleftrightarrow> a \<in> set xs \<and> alert_id a = i"
  by (induction xs) (auto simp: image_iff)

lemma map_of_filter_id:
  "map_of (map (\<lambda>a. (alert_id a, a)) (filter (\<lambda>b. alert_id b \<noteq> i) xs)) =
   (map_of (map (\<lambda>a. (alert_id a, a)) xs))(i := None)"
  by (induction xs) (auto simp: fun_eq_iff)

lemma find_by_id_found:
  "find_by_id d s = Inr (Some a) \<Longrightarrow> a \<in> set (alerts d) \<and> cast_oid s = Some (alert_id a)"
  by (auto simp: find_by_id_def with_fault_def split: option.splits dest: find_Some_set)

lemma remove_alert_ok:
  "remove_alert d a = Inr d' \<Longrightarrow> d' = d\<lparr>alerts := filter (\<lambda>b. alert_id b \<noteq> alert_id a) (alerts d)\<rparr>"
  by (auto simp: remove_alert_def with_fault_def split: if_splits option.splits)

lemma find_alerts_page_ok:
  "find_alerts_page d k n = Inr als \<Longrightarrow> 0 \<le> k \<and> als = mongo_limit n (drop (nat k) (sort_createdAt_desc (alerts d)))"
  by (auto simp: find_alerts_page_def with_fault_def split: if_splits option.splits)

lemma alerts_wf_faults [simp]: "alerts_wf (d\<lparr>faults := fs\<rparr>) = alerts_wf d"
  by (simp add: alerts_wf_def)

lemma alerts_wf_doc_remove [simp]: "alerts_wf (d\<lparr>doc_remove := b\<rparr>) = alerts_wf d"
  by (simp add: alerts_wf_def)

end
