(* ===== verification/Auth.thy ===== *)
theory Auth
  imports Store
begin

text \<open>
  The middleware \<open>protect\<close> and \<open>authorize\<close> of \<open>middleware/auth.js\<close>, which is not part
  of \<open>src/\<close>: modelled from the specification (section 6). \<open>protect\<close> attaches the
  authenticated caller to the request or rejects it; \<open>authorize(roles)\<close> lets the request
  through only when the caller's role is one of \<open>roles\<close>. Both reject before the handler
  runs, so a rejected request never touches the store.
\<close>

datatype auth_error = NotAuthenticated | NotAuthorized string

definition protect :: "user option \<Rightarrow> auth_error + user" where
  "protect tok = (case tok of None \<Rightarrow> Inl NotAuthenticated | Some u \<Rightarrow> Inr u)"

definition authorize :: "string list \<Rightarrow> user \<Rightarrow> auth_error + user" where
  "authorize roles u = (if role u \<in> set roles then Inr u else Inl (NotAuthorized (role u)))"

text \<open>The chain \<open>protect, authorize('mayor')\<close> every route of the module declares.\<close>

definition mayor_guard :: "user option \<Rightarrow> auth_error + user" where
  "mayor_guard tok = (case protect tok of Inl e \<Rightarrow> Inl e | Inr u \<Rightarrow> authorize [''mayor''] u)"

lemma mayor_guard_Inr [simp]: "mayor_guard tok = Inr u \<longleftrightarrow> tok = Some u \<and> role u = ''mayor''"
  by (auto simp: mayor_guard_def protect_def authorize_def split: option.splits if_splits)

end
