(* ===== verification/Mayor_Alert.thy ===== *)
theory Mayor_Alert
  imports Auth
begin

text \<open>
  The route module \<open>src/server/routes/mayorAlert.js\<close>: the JSON envelopes it answers
  with, the lines it writes to the console, its three handlers (\<open>GET /\<close>, \<open>DELETE /:id\<close>,
  \<open>POST /\<close>) and the router that dispatches a request to them behind the middleware.
  Each handler takes the store and returns the response, the store after its writes and
  its console output; every \<open>await\<close> is a case split on the call's outcome and every
  \<open>catch\<close> is the \<open>Inl\<close> branch.
\<close>

section \<open>Responses and console output\<close>

record pagination =
  current :: int
  total :: int
  hasMore :: bool

datatype payload = NoData | AlertsPage "alert list" pagination | AlertDoc alert

text \<open>\<open>res.status(s).json({success, message, data, error})\<close>; absent keys are \<open>None\<close>/\<open>NoData\<close>.\<close>

record response =
  status :: nat
  success :: bool
  resp_message :: "string option"
  data :: payload
  resp_error :: "js_error option"

type_synonym handler_result = "response \<times> db \<times> console_line list"

definition server_error :: "string \<Rightarrow> string \<Rightarrow> js_error \<Rightarrow> db \<Rightarrow> handler_result" where
  "server_error prefix msg e d =
     (\<lparr>status = 500, success = False, resp_message = Some msg, data = NoData, resp_error = Some e\<rparr>,
      d, [StderrError prefix e])"

definition client_error :: "nat \<Rightarrow> string \<Rightarrow> db \<Rightarrow> handler_result" where
  "client_error s msg d =
     (\<lparr>status = s, success = False, resp_message = Some msg, data = NoData, resp_error = None\<rparr>, d, [])"

section \<open>GET / (lines 11--45)\<close>

text \<open>\<open>parseInt(req.query.page) || 1\<close> and \<open>parseInt(req.query.limit) || 10\<close>.\<close>

definition query_page :: "(string \<times> jvalue) list \<Rightarrow> int" where
  "query_page q = js_or_default (js_parse_int (js_get q ''page'')) 1"

definition query_limit :: "(string \<times> jvalue) list \<Rightarrow> int" where
  "query_limit q = js_or_default (js_parse_int (js_get q ''limit'')) 10"

text \<open>\<open>const skip = (page - 1) * limit\<close>.\<close>

definition get_skip :: "(string \<times> jvalue) list \<Rightarrow> int" where
  "get_skip q = (query_page q - 1) * query_limit q"

text \<open>After \<open>await Promise.all([find, count])\<close>: the answer from the two outcomes.\<close>

definition get_finish :: "(string \<times> jvalue) list \<Rightarrow> alert list outcome \<Rightarrow> nat outcome \<Rightarrow> db \<Rightarrow> handler_result" where
  "get_finish q found counted d =
     (let fail = server_error ''Error fetching mayor alerts:'' ''Server error while fetching alerts''
      in case found of
           Inl e \<Rightarrow> fail e d
         | Inr als \<Rightarrow>
             (case counted of
                Inl e \<Rightarrow> fail e d
              | Inr tot \<Rightarrow>
                  (\<lparr>status = 200, success = True, resp_message = None,
                    data = AlertsPage als
                             \<lparr>current = query_page q, total = js_ceil_div (int tot) (query_limit q),
                              hasMore = get_skip q + int (length als) < int tot\<rparr>,
                    resp_error = None\<rparr>, d, [])))"

definition get_alerts :: "(string \<times> jvalue) list \<Rightarrow> db \<Rightarrow> handler_result" where
  "get_alerts q d =
     get_finish q (find_alerts_page d (get_skip q) (query_limit q)) (count_documents d) d"

section \<open>DELETE /:id (lines 53--78)\<close>

text \<open>After \<open>await alert.remove()\<close> (lines 64--69, and the \<open>catch\<close>).\<close>

definition delete_remove :: "alert \<Rightarrow> db \<Rightarrow> handler_result" where
  "delete_remove a d =
     (case remove_alert d a of
        Inl e \<Rightarrow> server_error ''Error deleting mayor alert:'' ''Server error while deleting alert'' e d
      | Inr d' \<Rightarrow>
          (\<lparr>status = 200, success = True, resp_message = Some ''Alert deleted successfully'',
            data = NoData, resp_error = None\<rparr>, d', []))"

text \<open>After \<open>await MayorAlert.findById(id)\<close> (lines 55--62).\<close>

definition delete_found :: "alert option outcome \<Rightarrow> db \<Rightarrow> handler_result" where
  "delete_found r d =
     (case r of
        Inl e \<Rightarrow> server_error ''Error deleting mayor alert:'' ''Server error while deleting alert'' e d
      | Inr None \<Rightarrow> client_error 404 ''Alert not found'' d
      | Inr (Some a) \<Rightarrow> delete_remove a d)"

definition delete_alert :: "string \<Rightarrow> db \<Rightarrow> handler_result" where
  "delete_alert i d = delete_found (find_by_id d i) d"

section \<open>POST / (lines 80--128)\<close>

text \<open>\<open>x.trim()\<close> on a body field: a string is trimmed, anything else has no \<open>trim\<close>
  method and throws a \<open>TypeError\<close>.\<close>

definition call_trim :: "string \<Rightarrow> jvalue \<Rightarrow> string outcome" where
  "call_trim name v = (case v of JStr s \<Rightarrow> Inr (js_trim s) | _ \<Rightarrow> Inl (name @ ''.trim is not a function''))"

definition sent_line :: "nat \<Rightarrow> string" where
  "sent_line n = ''Mayor alert sent to '' @ js_int_to_string (int n) @ '' users and admins''"

text \<open>
  Up to and including \<open>await alert.save()\<close> (lines 82--98): either the handler has
  answered (\<open>Inl\<close>: the 400, a \<open>TypeError\<close> of \<open>trim\<close>, a failed save) or the alert is
  saved and the handler goes on (\<open>Inr\<close>).
\<close>

definition post_save :: "user \<Rightarrow> (string \<times> jvalue) list \<Rightarrow> db \<Rightarrow> handler_result + (alert \<times> db)" where
  "post_save u body d =
     (let t = js_get body ''title''; m = js_get body ''message'';
          fail = server_error ''Error sending mayor alert:'' ''Server error while sending alert''
      in if \<not> js_truthy t \<or> \<not> js_truthy m then Inl (client_error 400 ''Title and message are required'' d)
         else case call_trim ''title'' t of
           Inl e \<Rightarrow> Inl (fail e d)
         | Inr tt \<Rightarrow>
             (case call_trim ''message'' m of
                Inl e \<Rightarrow> Inl (fail e d)
              | Inr mm \<Rightarrow>
                  (let (a, d1) = new_alert d tt mm (user_id u)
                   in case save_alert d1 a of
                        Inl e \<Rightarrow> Inl (fail e d1)
                      | Inr (a', d2) \<Rightarrow> Inr (a', d2))))"

text \<open>After \<open>await User.find(...)\<close> (lines 101--127).\<close>

definition post_notify :: "alert \<Rightarrow> user list outcome \<Rightarrow> db \<Rightarrow> handler_result" where
  "post_notify a r d =
     (case r of
        Inl e \<Rightarrow> server_error ''Error sending mayor alert:'' ''Server error while sending alert'' e d
      | Inr us \<Rightarrow>
          (\<lparr>status = 200, success = True,
            resp_message = Some ''Alert sent successfully to all users and admins'',
            data = AlertDoc a, resp_error = None\<rparr>,
           d, [Stdout (sent_line (length us))]))"

definition post_alert :: "user \<Rightarrow> (string \<times> jvalue) list \<Rightarrow> db \<Rightarrow> handler_result" where
  "post_alert u body d =
     (case post_save u body d of
        Inl r \<Rightarrow> r
      | Inr (a, d2) \<Rightarrow> post_notify a (find_users_by_role d2 [''citizen'', ''admin'']) d2)"

section \<open>The router (lines 6, 11, 53, 80)\<close>

datatype http_method = GET | HEAD | POST | PUT | PATCH | DELETE | OPTIONS

record request =
  req_method :: http_method
  req_path :: "string list" \<comment> \<open>the decoded segments below the mount point\<close>
  req_query :: "(string \<times> jvalue) list"
  req_body :: "(string \<times> jvalue) list"
  req_token :: "user option" \<comment> \<open>the user the request's credentials identify\<close>

text \<open>What the router does with a request: runs a handler behind the middleware, is stopped
  by the middleware, answers \<open>OPTIONS\<close> itself with the methods of the matching routes
  (Express's automatic \<open>Allow\<close> response), or passes the request on (\<open>next()\<close>).\<close>

datatype route_result = Handled handler_result | Denied auth_error | Allowed string | NoRoute

definition guarded :: "request \<Rightarrow> (user \<Rightarrow> handler_result) \<Rightarrow> route_result" where
  "guarded r h = (case mayor_guard (req_token r) of Inl e \<Rightarrow> Denied e | Inr u \<Rightarrow> Handled (h u))"

text \<open>Express matches the method and the path before it runs a route's middleware;
  \<open>router.get\<close> also serves \<open>HEAD\<close> (the body is computed and not sent); a path the
  routes match under another method answers \<open>OPTIONS\<close> with those methods.\<close>

definition mayor_router :: "request \<Rightarrow> db \<Rightarrow> route_result" where
  "mayor_router r d =
     (case (req_method r, req_path r) of
        (GET, []) \<Rightarrow> guarded r (\<lambda>u. get_alerts (req_query r) d)
      | (HEAD, []) \<Rightarrow> guarded r (\<lambda>u. get_alerts (req_query r) d)
      | (DELETE, [i]) \<Rightarrow> guarded r (\<lambda>u. delete_alert i d)
      | (POST, []) \<Rightarrow> guarded r (\<lambda>u. post_alert u (req_body r) d)
      | (OPTIONS, []) \<Rightarrow> Allowed ''GET,HEAD,POST''
      | (OPTIONS, [i]) \<Rightarrow> Allowed ''DELETE''
      | _ \<Rightarrow> NoRoute)"

declare query_page_def [js_simps] query_limit_def [js_simps]

lemmas get_alerts_unfold = get_alerts_def get_finish_def get_skip_def
lemmas delete_alert_unfold = delete_alert_def delete_found_def delete_remove_def
lemmas post_alert_unfold = post_alert_def post_save_def post_notify_def

declare get_alerts_unfold [handler_defs] delete_alert_unfold [handler_defs] post_alert_unfold [handler_defs]

text \<open>The alert a successful POST stores: the next ObjectId, the trimmed fields, the
  caller, and the clock at the insert.\<close>

definition created_alert :: "db \<Rightarrow> user \<Rightarrow> string \<Rightarrow> string \<Rightarrow> alert" where
  "created_alert d u t m =
     \<lparr>alert_id = next_oid d, title = js_trim t, message = js_trim m, sentBy = user_id u,
      createdAt = clock d\<rparr>"

section \<open>Example data for the witnesses\<close>

definition demo_alert :: "nat \<Rightarrow> alert" where
  "demo_alert n = \<lparr>alert_id = n, title = ''Alert'', message = ''Notice'', sentBy = 1, createdAt = n\<rparr>"

definition demo_db :: db where
  "demo_db = \<lparr>alerts = map demo_alert [1, 2, 3], users = [\<lparr>user_id = 2, role = ''citizen''\<rparr>],
     next_oid = 4, clock = 5, faults = [], doc_remove = True\<rparr>"

definition demo_mayor :: user where
  "demo_mayor = \<lparr>user_id = 9, role = ''mayor''\<rparr>"

definition demo_db_users_down :: db where
  "demo_db_users_down = demo_db\<lparr>faults := [(FindUsers, ''connection reset'')]\<rparr>"

definition demo_options :: request where
  "demo_options = \<lparr>req_method = OPTIONS, req_path = [], req_query = [], req_body = [], req_token = Some demo_mayor\<rparr>"

lemmas demo_defs = demo_alert_def demo_db_def demo_mayor_def

text \<open>The rules that evaluate a GET on concrete data.\<close>

lemmas get_eval = get_alerts_unfold js_simps find_alerts_page_def count_documents_def mongo_limit_def
  sort_createdAt_desc_def js_ceil_div_def Let_def

section \<open>Lemmas on the handlers\<close>

lemma demo_db_wf: "alerts_wf demo_db"
  by (simp add: alerts_wf_def demo_defs alert_valid_def js_simps)

lemma query_limit_nonzero [simp]: "query_limit q \<noteq> 0"
  by (simp add: query_limit_def js_or_default_nonzero)

lemma get_alerts_frame: "fst (snd (get_alerts q d)) = d"
  by (simp add: get_alerts_unfold Let_def server_error_def split: sum.splits)

lemma get_alerts_AlertsPage:
  assumes "get_alerts q d = (r, d', out)" "data r = AlertsPage als pg"
  shows "als = mongo_limit (query_limit q) (drop (nat ((query_page q - 1) * query_limit q))
                 (sort_createdAt_desc (alerts d)))"
  using assms
  by (auto simp: get_alerts_unfold Let_def server_error_def split: sum.splits dest!: find_alerts_page_ok)

lemma post_alert_missing:
  "\<not> js_truthy (js_get b ''title'') \<or> \<not> js_truthy (js_get b ''message'') \<Longrightarrow>
   post_alert u b d = client_error 400 ''Title and message are required'' d"
  by (auto simp: post_alert_unfold Let_def)

lemma post_alert_strings:
  assumes "js_get b ''title'' = JStr t" "js_get b ''message'' = JStr m" "t \<noteq> []" "m \<noteq> []"
  shows "post_alert u b d =
    (let a = created_alert d u t m; d2 = d\<lparr>next_oid := Suc (next_oid d)\<rparr>;
         fail = server_error ''Error sending mayor alert:'' ''Server error while sending alert''
     in case save_alert d2 (a\<lparr>createdAt := 0\<rparr>) of
          Inl e \<Rightarrow> fail e d2
        | Inr (a', d3) \<Rightarrow>
            (case find_users_by_role d3 [''citizen'', ''admin''] of
               Inl e \<Rightarrow> fail e d3
             | Inr us \<Rightarrow>
                 (\<lparr>status = 200, success = True,
                   resp_message = Some ''Alert sent successfully to all users and admins'',
                   data = AlertDoc a', resp_error = None\<rparr>,
                  d3, [Stdout (sent_line (length us))])))"
  using assms by (simp add: post_alert_unfold call_trim_def new_alert_def created_alert_def Let_def split: sum.split)

lemma save_created_alert:
  assumes "js_trim t \<noteq> []" "js_trim m \<noteq> []" "map_of (faults d) SaveAlert = None"
  shows "save_alert (d\<lparr>next_oid := Suc (next_oid d)\<rparr>) ((created_alert d u t m)\<lparr>createdAt := 0\<rparr>) =
         Inr (created_alert d u t m,
              d\<lparr>next_oid := Suc (next_oid d), alerts := alerts d @ [created_alert d u t m]\<rparr>)"
  using assms by (simp add: save_alert_def alert_valid_def created_alert_def Let_def)

lemma post_alert_blank:
  assumes "js_get b ''title'' = JStr t" "js_get b ''message'' = JStr m" "t \<noteq> []" "m \<noteq> []"
    and "js_trim t = [] \<or> js_trim m = []"
  shows "post_alert u b d =
    server_error ''Error sending mayor alert:'' ''Server error while sending alert''
      ''MayorAlert validation failed'' (d\<lparr>next_oid := Suc (next_oid d)\<rparr>)"
  unfolding post_alert_strings [OF assms(1-4)] Let_def
  using assms(5) by (auto simp: save_alert_def alert_valid_def created_alert_def)


lemma delete_alert_found:
  assumes "alerts_wf d" "cast_oid i = Some k" "alert_map d k = Some a"
    and "map_of (faults d) FindAlertById = None"
  shows "delete_alert i d =
    (let fail = server_error ''Error deleting mayor alert:'' ''Server error while deleting alert''
     in case remove_alert d a of
          Inl e \<Rightarrow> fail e d
        | Inr d' \<Rightarrow>
            (\<lparr>status = 200, success = True, resp_message = Some ''Alert deleted successfully'',
              data = NoData, resp_error = None\<rparr>, d', []))"
proof -
  have dist: "distinct (map alert_id (alerts d))" using assms(1) by (simp add: alerts_wf_def)
  have a: "a \<in> set (alerts d)" "alert_id a = k"
    using assms(3) alert_map_Some_iff [OF dist] by (auto simp: alert_map_def)
  have "find (\<lambda>b. alert_id b = k) (alerts d) = Some a"
    using find_distinct_key [OF dist a(1)] a(2) by simp
  then show ?thesis using assms(2,4) by (simp add: delete_alert_unfold find_by_id_def)
qed

lemma delete_alert_removes:
  assumes "alerts_wf d" "cast_oid i = Some k" "alert_map d k = Some a" "doc_remove d"
    and "map_of (faults d) FindAlertById = None" "map_of (faults d) RemoveAlert = None"
  shows "delete_alert i d =
    (\<lparr>status = 200, success = True, resp_message = Some ''Alert deleted successfully'',
      data = NoData, resp_error = None\<rparr>,
     d\<lparr>alerts := filter (\<lambda>b. alert_id b \<noteq> k) (alerts d)\<rparr>, [])"
proof -
  have "alert_id a = k"
    using assms(1,3) alert_map_Some_iff by (auto simp: alert_map_def alerts_wf_def)
  then show ?thesis
    unfolding delete_alert_found [OF assms(1,2,3,5)] using assms(4,6) by (simp add: remove_alert_def)
qed

lemma post_alert_success:
  assumes "post_alert u b d = (r, d1, out)" "status r = 200"
  shows "\<exists>t m. data r = AlertDoc (created_alert d u t m) \<and>
           d1 = d\<lparr>next_oid := Suc (next_oid d), alerts := alerts d @ [created_alert d u t m]\<rparr>"
  using assms
  by (auto simp: post_alert_unfold Let_def call_trim_def new_alert_def save_alert_def with_fault_def
      created_alert_def client_error_def server_error_def split: if_splits sum.splits jvalue.splits option.splits)
    blast

lemma post_alert_store:
  assumes "post_alert u b d = (r, d', out)"
  shows "d' = d \<or> d' = d\<lparr>next_oid := Suc (next_oid d)\<rparr> \<or>
         (\<exists>t m. js_trim t \<noteq> [] \<and> js_trim m \<noteq> [] \<and>
            d' = d\<lparr>next_oid := Suc (next_oid d), alerts := alerts d @ [created_alert d u t m]\<rparr>)"
proof (cases "\<not> js_truthy (js_get b ''title'') \<or> \<not> js_truthy (js_get b ''message'')")
  case True
  then show ?thesis using assms by (simp add: post_alert_missing client_error_def)
next
  case truthy: False
  show ?thesis
  proof (cases "\<exists>t m. js_get b ''title'' = JStr t \<and> js_get b ''message'' = JStr m")
    case True
    then obtain t m where tm: "js_get b ''title'' = JStr t" "js_get b ''message'' = JStr m" by blast
    with truthy have ne: "t \<noteq> []" "m \<noteq> []" by auto
    show ?thesis
    proof (cases "js_trim t \<noteq> [] \<and> js_trim m \<noteq> []")
      case True
      have "d' = d\<lparr>next_oid := Suc (next_oid d)\<rparr> \<or>
            d' = d\<lparr>next_oid := Suc (next_oid d), alerts := alerts d @ [created_alert d u t m]\<rparr>"
        using assms True unfolding post_alert_strings [OF tm ne] Let_def
        by (auto simp: save_alert_def alert_valid_def created_alert_def server_error_def Let_def
            find_users_by_role_def with_fault_def split: option.splits)
      with True show ?thesis by blast
    next
      case False
      then show ?thesis using assms post_alert_blank [OF tm ne] by (auto simp: server_error_def)
    qed
  next
    case False
    with truthy assms show ?thesis
      by (auto simp: post_alert_unfold call_trim_def server_error_def Let_def split: jvalue.splits)
  qed
qed

lemma delete_alert_store:
  assumes "delete_alert i d = (r, d', out)"
  shows "d' = d \<or> (\<exists>k. d' = d\<lparr>alerts := filter (\<lambda>b. alert_id b \<noteq> k) (alerts d)\<rparr>)"
  using assms
  by (auto simp: delete_alert_unfold server_error_def client_error_def Let_def
      split: sum.splits option.splits dest!: remove_alert_ok)

lemma alerts_wf_filter:
  "alerts_wf d \<Longrightarrow> alerts_wf (d\<lparr>alerts := filter P (alerts d)\<rparr>)"
  by (auto simp: alerts_wf_def)

lemma alerts_wf_next_oid:
  "alerts_wf d \<Longrightarrow> alerts_wf (d\<lparr>next_oid := Suc (next_oid d)\<rparr>)"
  by (auto simp: alerts_wf_def)

lemma alerts_wf_created:
  assumes "alerts_wf d" "js_trim t \<noteq> []" "js_trim m \<noteq> []"
  shows "alerts_wf (d\<lparr>next_oid := Suc (next_oid d), alerts := alerts d @ [created_alert d u t m]\<rparr>)"
proof -
  have fresh: "next_oid d \<notin> alert_id ` set (alerts d)"
    using assms(1) by (auto simp: alerts_wf_def)
  show ?thesis
    using assms fresh
    by (auto simp: alerts_wf_def created_alert_def alert_valid_def js_trim_idem less_Suc_eq)
qed

lemma get_alerts_wf: "get_alerts q d = (r, d', out) \<Longrightarrow> alerts_wf d \<Longrightarrow> alerts_wf d'"
  using get_alerts_frame [of q d] by simp

lemma post_alert_wf: "post_alert u b d = (r, d', out) \<Longrightarrow> alerts_wf d \<Longrightarrow> alerts_wf d'"
  by (auto dest!: post_alert_store intro: alerts_wf_next_oid alerts_wf_created)

lemma delete_alert_wf: "delete_alert i d = (r, d', out) \<Longrightarrow> alerts_wf d \<Longrightarrow> alerts_wf d'"
  by (auto dest!: delete_alert_store intro: alerts_wf_filter)

lemma mayor_router_Handled:
  "mayor_router r d = Handled res \<Longrightarrow>
   \<exists>u. req_token r = Some u \<and> role u = ''mayor'' \<and>
     ((req_method r = GET \<or> req_method r = HEAD) \<and> req_path r = [] \<and> get_alerts (req_query r) d = res \<or>
      (\<exists>i. req_method r = DELETE \<and> req_path r = [i] \<and> delete_alert i d = res) \<or>
      req_method r = POST \<and> req_path r = [] \<and> post_alert u (req_body r) d = res)"
  by (auto simp: mayor_router_def guarded_def split: http_method.splits list.splits sum.splits)

lemma get_alerts_subset:
  "get_alerts q d = (r, d', out) \<Longrightarrow> data r = AlertsPage als pg \<Longrightarrow> set als \<subseteq> set (alerts d)"
  using get_alerts_AlertsPage [of q d r d' out als pg]
    set_take_drop_subset [of _ _ "sort_createdAt_desc (alerts d)"]
  by (simp add: mongo_limit_def)

lemma delete_alert_success_gone:
  assumes "delete_alert i d = (r, d', out)" "success r" "cast_oid i = Some k"
  shows "k \<notin> alert_id ` set (alerts d')"
  using assms
  by (auto simp: delete_alert_unfold server_error_def client_error_def Let_def
      split: sum.splits option.splits dest!: remove_alert_ok find_by_id_found)

section \<open>Properties of the route module\<close>

text \<open>C1: GET with a positive page and limit answers the window of the alerts newest first, page count and hasMore.\<close>
theorem get_alerts_page:
  assumes "query_page q = int p" "query_limit q = int l" "0 < p"
    and "map_of (faults d) FindAlerts = None" "map_of (faults d) CountAlerts = None"
  shows "get_alerts q d =
    (\<lparr>status = 200, success = True, resp_message = None,
      data = AlertsPage (take l (drop ((p - 1) * l) (sort_createdAt_desc (alerts d))))
               \<lparr>current = int p, total = \<lceil>real (length (alerts d)) / real l\<rceil>,
                hasMore = (p * l < length (alerts d))\<rparr>,
      resp_error = None\<rparr>, d, [])"
proof -
  have l: "l \<noteq> 0" using assms(2) query_limit_nonzero [of q] by auto
  have skip: "(int p - 1) * int l = int ((p - 1) * l)" using assms(3) by (simp add: of_nat_diff)
  have more: "int ((p - 1) * l) + int (length (take l (drop ((p - 1) * l) (sort_createdAt_desc (alerts d)))))
                < int (length (alerts d)) \<longleftrightarrow> p * l < length (alerts d)"
  proof -
    have "(p - 1) * l + length (take l (drop ((p - 1) * l) (sort_createdAt_desc (alerts d))))
          < length (alerts d) \<longleftrightarrow> p * l < length (alerts d)"
      using window_hasMore [OF assms(3), of l "sort_createdAt_desc (alerts d)"] by simp
    then show ?thesis by linarith
  qed
  have find: "find_alerts_page d (int ((p - 1) * l)) (int l) =
      Inr (take l (drop ((p - 1) * l) (sort_createdAt_desc (alerts d))))"
    unfolding find_alerts_page_def using assms(4) l by (simp add: mongo_limit_def flip: of_nat_mult)
  have count: "count_documents d = Inr (length (alerts d))"
    using assms(5) by (simp add: count_documents_def)
  show ?thesis
    unfolding get_alerts_unfold Let_def assms(1,2) skip find count
    using more by (simp add: js_ceil_div_real flip: of_nat_mult)
qed

theorem get_alerts_page_witness:
  "get_alerts [(''page'', JStr ''2''), (''limit'', JStr ''2'')] demo_db =
    (\<lparr>status = 200, success = True, resp_message = None,
      data = AlertsPage [demo_alert 1] \<lparr>current = 2, total = 2, hasMore = False\<rparr>,
      resp_error = None\<rparr>, demo_db, [])"
proof -
  have "query_page [(''page'', JStr ''2''), (''limit'', JStr ''2'')] = int 2"
       "query_limit [(''page'', JStr ''2''), (''limit'', JStr ''2'')] = int 2"
    by (simp_all add: js_simps)
  from get_alerts_page [OF this, of demo_db] show ?thesis
    by (simp add: demo_defs sort_createdAt_desc_def)
qed

text \<open>C2: POST with two strings that stay non-empty after trimming stores exactly one new alert.\<close>
theorem post_alert_created:
  assumes "js_get b ''title'' = JStr t" "js_get b ''message'' = JStr m"
    and "js_trim t \<noteq> []" "js_trim m \<noteq> []"
    and "map_of (faults d) SaveAlert = None" "map_of (faults d) FindUsers = None"
  shows "post_alert u b d =
    (\<lparr>status = 200, success = True,
      resp_message = Some ''Alert sent successfully to all users and admins'',
      data = AlertDoc (created_alert d u t m), resp_error = None\<rparr>,
     d\<lparr>next_oid := Suc (next_oid d), alerts := alerts d @ [created_alert d u t m]\<rparr>,
     [Stdout (sent_line (length (filter (\<lambda>v. role v \<in> {''citizen'', ''admin''}) (users d))))])"
proof -
  have ne: "t \<noteq> []" "m \<noteq> []" using assms(3,4) by (auto simp: js_trim_def)
  show ?thesis
    unfolding post_alert_strings [OF assms(1,2) ne] Let_def save_created_alert [OF assms(3-5)]
    using assms(6) by (simp add: find_users_by_role_def)
qed

theorem post_alert_created_witness:
  "post_alert demo_mayor [(''title'', JStr '' Road Closure ''), (''message'', JStr '' Main St closed '')] demo_db =
    (\<lparr>status = 200, success = True,
      resp_message = Some ''Alert sent successfully to all users and admins'',
      data = AlertDoc \<lparr>alert_id = 4, title = ''Road Closure'', message = ''Main St closed'', sentBy = 9, createdAt = 5\<rparr>,
      resp_error = None\<rparr>,
     demo_db\<lparr>next_oid := 5, alerts := alerts demo_db @
       [\<lparr>alert_id = 4, title = ''Road Closure'', message = ''Main St closed'', sentBy = 9, createdAt = 5\<rparr>]\<rparr>,
     [Stdout (sent_line 1)])"
proof -
  have "js_get [(''title'', JStr '' Road Closure ''), (''message'', JStr '' Main St closed '')] ''title'' = JStr '' Road Closure ''"
       "js_get [(''title'', JStr '' Road Closure ''), (''message'', JStr '' Main St closed '')] ''message'' = JStr '' Main St closed ''"
       "js_trim '' Road Closure '' \<noteq> []" "js_trim '' Main St closed '' \<noteq> []"
       "map_of (faults demo_db) SaveAlert = None" "map_of (faults demo_db) FindUsers = None"
    by (simp_all add: js_simps demo_defs)
  from post_alert_created [OF this, of demo_mayor] show ?thesis
    by (simp add: created_alert_def js_simps demo_defs)
qed

text \<open>C3: POST with a falsy title or message answers 400 and writes nothing.\<close>
theorem post_alert_rejects_missing:
  assumes "\<not> js_truthy (js_get b ''title'') \<or> \<not> js_truthy (js_get b ''message'')"
  shows "post_alert u b d =
    (\<lparr>status = 400, success = False, resp_message = Some ''Title and message are required'',
      data = NoData, resp_error = None\<rparr>, d, [])"
  using post_alert_missing [OF assms] by (simp add: client_error_def)

theorem post_alert_rejects_missing_witness:
  "post_alert demo_mayor [(''title'', JStr ''''), (''message'', JStr ''Main St closed'')] demo_db =
    (\<lparr>status = 400, success = False, resp_message = Some ''Title and message are required'',
      data = NoData, resp_error = None\<rparr>, demo_db, [])"
  by (rule post_alert_rejects_missing) (simp add: js_simps)

text \<open>C4: DELETE of a stored alert removes exactly that alert from the collection (refinement of map deletion).\<close>
theorem delete_alert_refines:
  assumes "alerts_wf d" "cast_oid i = Some k" "alert_map d k = Some a" "doc_remove d"
    and "map_of (faults d) FindAlertById = None" "map_of (faults d) RemoveAlert = None"
  shows "\<exists>r d'. delete_alert i d = (r, d', []) \<and> status r = 200 \<and> success r \<and>
           alert_map d' = (alert_map d)(k := None) \<and> users d' = users d \<and> next_oid d' = next_oid d"
  using delete_alert_removes [OF assms] by (simp add: alert_map_def map_of_filter_id)

theorem delete_alert_refines_witness:
  "\<exists>r d'. delete_alert ''000000000000000000000002'' demo_db = (r, d', []) \<and> status r = 200 \<and> success r \<and>
     alert_map d' = (alert_map demo_db)(2 := None) \<and> users d' = users demo_db \<and> next_oid d' = next_oid demo_db"
proof (rule delete_alert_refines)
  show "alerts_wf demo_db" by (rule demo_db_wf)
  show "cast_oid ''000000000000000000000002'' = Some 2" by (simp add: cast_oid_def js_simps)
  show "alert_map demo_db 2 = Some (demo_alert 2)" by (simp add: alert_map_def demo_defs)
qed (simp_all add: demo_defs)

text \<open>C5: DELETE of a well-formed id that no alert has answers 404 and writes nothing.\<close>
theorem delete_alert_not_found:
  assumes "cast_oid i = Some k" "map_of (faults d) FindAlertById = None" "k \<notin> dom (alert_map d)"
  shows "delete_alert i d =
    (\<lparr>status = 404, success = False, resp_message = Some ''Alert not found'',
      data = NoData, resp_error = None\<rparr>, d, [])"
proof -
  have "alert_map d k = None" using assms(3) by (simp add: domIff)
  then have "find (\<lambda>a. alert_id a = k) (alerts d) = None"
    by (force simp: alert_map_def find_None_iff map_of_eq_None_iff image_iff)
  then show ?thesis using assms(1,2) by (simp add: delete_alert_unfold find_by_id_def client_error_def)
qed

theorem delete_alert_not_found_witness:
  "delete_alert ''0000000000000000000000ff'' demo_db =
    (\<lparr>status = 404, success = False, resp_message = Some ''Alert not found'',
      data = NoData, resp_error = None\<rparr>, demo_db, [])"
proof (rule delete_alert_not_found)
  show "cast_oid ''0000000000000000000000ff'' = Some 255" by (simp add: cast_oid_def js_simps)
  show "255 \<notin> dom (alert_map demo_db)" by (simp add: alert_map_def demo_defs)
qed (simp add: demo_defs)

text \<open>C6: every request the router handles keeps the collection invariant.\<close>
theorem mayor_router_wf:
  "alerts_wf d \<Longrightarrow> mayor_router r d = Handled (resp, d', out) \<Longrightarrow> alerts_wf d'"
  by (auto dest!: mayor_router_Handled intro: get_alerts_wf post_alert_wf delete_alert_wf)

theorem mayor_router_wf_witness:
  "alerts_wf (fst (snd (post_alert demo_mayor [(''title'', JStr '' Road Closure ''), (''message'', JStr ''x'')] demo_db)))"
proof -
  obtain resp d' out where eq:
    "post_alert demo_mayor [(''title'', JStr '' Road Closure ''), (''message'', JStr ''x'')] demo_db = (resp, d', out)"
    by (cases "post_alert demo_mayor [(''title'', JStr '' Road Closure ''), (''message'', JStr ''x'')] demo_db") auto
  have wf: "alerts_wf demo_db" by (rule demo_db_wf)
  have "mayor_router \<lparr>req_method = POST, req_path = [], req_query = [],
          req_body = [(''title'', JStr '' Road Closure ''), (''message'', JStr ''x'')],
          req_token = Some demo_mayor\<rparr> demo_db = Handled (resp, d', out)"
    by (simp add: mayor_router_def guarded_def mayor_guard_def protect_def authorize_def demo_mayor_def eq [unfolded demo_mayor_def])
  then have "alerts_wf d'" by (rule mayor_router_wf [OF wf])
  then show ?thesis by (simp add: eq)
qed

text \<open>C7: the router runs a handler only for a caller authenticated with the role mayor.\<close>
theorem mayor_router_requires_mayor:
  "mayor_router r d = Handled res \<Longrightarrow> \<exists>u. req_token r = Some u \<and> role u = ''mayor''"
  by (blast dest: mayor_router_Handled)

theorem mayor_router_requires_mayor_witness:
  "\<exists>u. req_token \<lparr>req_method = GET, req_path = [], req_query = [], req_body = [], req_token = Some demo_mayor\<rparr> = Some u
       \<and> role u = ''mayor''"
  by (rule mayor_router_requires_mayor [of _ demo_db "get_alerts [] demo_db"])
     (simp add: mayor_router_def guarded_def demo_defs mayor_guard_def protect_def authorize_def)

text \<open>C9: a GET page never holds more alerts than the limit's magnitude, only stored alerts, newest first.\<close>
theorem get_alerts_bounded:
  assumes "get_alerts q d = (r, d', out)" "data r = AlertsPage als pg"
  shows "length als \<le> nat \<bar>query_limit q\<bar> \<and> set als \<subseteq> set (alerts d) \<and>
         sorted_wrt (\<lambda>a b. createdAt b \<le> createdAt a) als"
proof -
  let ?ys = "drop (nat ((query_page q - 1) * query_limit q)) (sort_createdAt_desc (alerts d))"
  have als: "als = take (nat \<bar>query_limit q\<bar>) ?ys"
    using get_alerts_AlertsPage [OF assms] by (simp add: mongo_limit_def)
  have "sorted_wrt (\<lambda>a b. createdAt b \<le> createdAt a) ?ys"
    using sorted_createdAt_desc by (rule sorted_wrt_drop)
  then have "sorted_wrt (\<lambda>a b. createdAt b \<le> createdAt a) als"
    unfolding als by (rule sorted_wrt_take)
  with get_alerts_subset [OF assms] show ?thesis by (simp add: als)
qed

theorem get_alerts_bounded_witness:
  "length [demo_alert 3, demo_alert 2] \<le> nat \<bar>query_limit [(''limit'', JStr ''2'')]\<bar>"
proof -
  have "get_alerts [(''limit'', JStr ''2'')] demo_db =
         (fst (get_alerts [(''limit'', JStr ''2'')] demo_db), demo_db, [])"
    by (simp add: get_eval demo_defs)
  moreover have "data (fst (get_alerts [(''limit'', JStr ''2'')] demo_db)) =
     AlertsPage [demo_alert 3, demo_alert 2] \<lparr>current = 1, total = 2, hasMore = True\<rparr>"
    by (simp add: get_eval demo_defs)
  ultimately show ?thesis using get_alerts_bounded by blast
qed

text \<open>C10: when the user lookup rejects after the save, POST answers 500 although the alert stays stored.\<close>
theorem post_alert_lookup_failure_keeps_alert:
  assumes "js_get b ''title'' = JStr t" "js_get b ''message'' = JStr m"
    and "js_trim t \<noteq> []" "js_trim m \<noteq> []"
    and "map_of (faults d) SaveAlert = None" "map_of (faults d) FindUsers = Some e"
  shows "post_alert u b d =
    (\<lparr>status = 500, success = False, resp_message = Some ''Server error while sending alert'',
      data = NoData, resp_error = Some e\<rparr>,
     d\<lparr>next_oid := Suc (next_oid d), alerts := alerts d @ [created_alert d u t m]\<rparr>,
     [StderrError ''Error sending mayor alert:'' e])"
proof -
  have ne: "t \<noteq> []" "m \<noteq> []" using assms(3,4) by (auto simp: js_trim_def)
  show ?thesis
    unfolding post_alert_strings [OF assms(1,2) ne] Let_def save_created_alert [OF assms(3-5)]
    using assms(6) by (simp add: find_users_by_role_def server_error_def)
qed

theorem post_alert_lookup_failure_keeps_alert_witness:
  "alerts (fst (snd (post_alert demo_mayor [(''title'', JStr ''Flood''), (''message'', JStr ''Stay in'')]
      demo_db_users_down))) = alerts demo_db @ [created_alert demo_db_users_down demo_mayor ''Flood'' ''Stay in'']
   \<and> status (fst (post_alert demo_mayor [(''title'', JStr ''Flood''), (''message'', JStr ''Stay in'')]
      demo_db_users_down)) = 500"
proof -
  have "js_get [(''title'', JStr ''Flood''), (''message'', JStr ''Stay in'')] ''title'' = JStr ''Flood''"
       "js_get [(''title'', JStr ''Flood''), (''message'', JStr ''Stay in'')] ''message'' = JStr ''Stay in''"
       "js_trim ''Flood'' \<noteq> []" "js_trim ''Stay in'' \<noteq> []"
       "map_of (faults demo_db_users_down) SaveAlert = None"
       "map_of (faults demo_db_users_down) FindUsers = Some ''connection reset''"
    by (simp_all add: js_simps demo_db_users_down_def)
  from post_alert_lookup_failure_keeps_alert [OF this, of demo_mayor] show ?thesis
    by (simp add: demo_db_users_down_def)
qed

text \<open>C11: POST with a title or message of white space only passes the 400 guard and answers 500.\<close>
theorem post_alert_blank_field_500:
  assumes "js_get b ''title'' = JStr t" "js_get b ''message'' = JStr m" "t \<noteq> []" "m \<noteq> []"
    and "js_trim t = [] \<or> js_trim m = []"
  shows "status (fst (post_alert u b d)) = 500 \<and>
         resp_error (fst (post_alert u b d)) = Some ''MayorAlert validation failed'' \<and>
         alerts (fst (snd (post_alert u b d))) = alerts d"
  using post_alert_blank [OF assms] by (simp add: server_error_def)

theorem post_alert_blank_field_500_witness:
  "status (fst (post_alert demo_mayor [(''title'', JStr ''   ''), (''message'', JStr ''x'')] demo_db)) = 500"
  using post_alert_blank_field_500 [of "[(''title'', JStr ''   ''), (''message'', JStr ''x'')]" "''   ''" "''x''"]
  by (simp add: js_simps)



text \<open>C13: GET with a negative page (limit positive) asks the store for a negative skip and answers 500.\<close>
theorem get_alerts_negative_page:
  assumes "js_parse_int (js_get q ''page'') = Some p" "p < 0" "0 < query_limit q"
    and "map_of (faults d) FindAlerts = None"
  shows "get_alerts q d =
    server_error ''Error fetching mayor alerts:'' ''Server error while fetching alerts''
      ''Skip value must be non-negative'' d"
proof -
  have page: "query_page q = p" using assms(1,2) by (simp add: query_page_def js_or_default_def)
  have "(p - 1) * query_limit q < 0" using assms(2,3) by (simp add: mult_neg_pos)
  then show ?thesis using assms(4) by (simp add: get_alerts_unfold Let_def page find_alerts_page_def)
qed

theorem get_alerts_negative_page_witness:
  "status (fst (get_alerts [(''page'', JStr ''-1'')] demo_db)) = 500"
proof -
  have "js_parse_int (js_get [(''page'', JStr ''-1'')] ''page'') = Some (-1)"
       "0 < query_limit [(''page'', JStr ''-1'')]" "map_of (faults demo_db) FindAlerts = None"
    by (simp_all add: js_simps demo_defs)
  from get_alerts_negative_page [OF this(1) _ this(2,3)] show ?thesis by (simp add: server_error_def)
qed

text \<open>C14: where Mongoose lacks Document.remove (version 7 on), DELETE of a stored alert answers 500 and deletes nothing.\<close>
theorem delete_alert_without_remove:
  assumes "alerts_wf d" "cast_oid i = Some k" "alert_map d k = Some a" "\<not> doc_remove d"
    and "map_of (faults d) FindAlertById = None"
  shows "delete_alert i d =
    server_error ''Error deleting mayor alert:'' ''Server error while deleting alert''
      ''alert.remove is not a function'' d"
  unfolding delete_alert_found [OF assms(1,2,3,5)] using assms(4) by (simp add: remove_alert_def)

theorem delete_alert_without_remove_witness:
  "status (fst (delete_alert ''000000000000000000000002'' (demo_db\<lparr>doc_remove := False\<rparr>))) = 500"
proof -
  have "alerts_wf (demo_db\<lparr>doc_remove := False\<rparr>)" by (simp add: demo_db_wf)
  moreover have "cast_oid ''000000000000000000000002'' = Some 2" by (simp add: cast_oid_def js_simps)
  moreover have "alert_map (demo_db\<lparr>doc_remove := False\<rparr>) 2 = Some (demo_alert 2)"
    by (simp add: alert_map_def demo_defs)
  ultimately show ?thesis using delete_alert_without_remove by (simp add: server_error_def demo_defs)
qed



text \<open>C28: Express dispatches before it authenticates: HEAD / runs exactly what GET / runs (middleware, handler and its store queries), and PUT, PATCH and OPTIONS requests reach neither the middleware nor a handler, so their outcome does not depend on the caller's credentials.\<close>

theorem router_dispatch_order:
  "mayor_router (r\<lparr>req_method := HEAD\<rparr>) d = mayor_router (r\<lparr>req_method := GET\<rparr>) d \<and>
   (req_method r \<in> {PUT, PATCH, OPTIONS} \<longrightarrow>
      mayor_router r d = mayor_router (r\<lparr>req_token := None\<rparr>) d \<and> (\<forall>res. mayor_router r d \<noteq> Handled res))"
  by (auto simp: mayor_router_def guarded_def split: http_method.splits list.splits)

theorem router_dispatch_order_witness:
  "mayor_router demo_options demo_db = mayor_router (demo_options\<lparr>req_token := None\<rparr>) demo_db \<and>
   mayor_router demo_options demo_db = Allowed ''GET,HEAD,POST''"
proof -
  have "req_method demo_options \<in> {PUT, PATCH, OPTIONS}" by (simp add: demo_options_def)
  then have "mayor_router demo_options demo_db = mayor_router (demo_options\<lparr>req_token := None\<rparr>) demo_db"
    using router_dispatch_order [of demo_options demo_db] by blast
  moreover have "mayor_router demo_options demo_db = Allowed ''GET,HEAD,POST''"
    by (simp add: mayor_router_def demo_options_def)
  ultimately show ?thesis by simp
qed

end
