(* ===== verification/Database.thy ===== *)
theory Database
  imports JS_Runtime
begin

text \<open>
  The connection manager \<open>connectDB\<close> of \<open>src/server/config/database.js\<close>. The process
  it runs in is a record: its environment, Mongoose's global \<open>bufferCommands\<close> setting,
  the default connection once open, the console, and the exit code once
  \<open>process.exit\<close> has been called. \<open>mongoose.connect\<close> is a library call; it is a
  parameter of the model, a function from the URI and the options to a rejection
  message or an open connection, so that every answer the store can give is covered.
\<close>

datatype read_preference = Primary | PrimaryPreferred | Secondary | SecondaryPreferred | Nearest

record connect_options =
  useNewUrlParser :: bool
  useUnifiedTopology :: bool
  maxPoolSize :: nat
  minPoolSize :: nat
  maxIdleTimeMS :: nat
  socketTimeoutMS :: nat
  readPreference :: read_preference

text \<open>The options object literal of lines 12--22.\<close>

definition db_options :: connect_options where
  "db_options =
     \<lparr>useNewUrlParser = True, useUnifiedTopology = True, maxPoolSize = 10, minPoolSize = 5,
      maxIdleTimeMS = 30000, socketTimeoutMS = 30000, readPreference = Nearest\<rparr>"

record connection =
  host :: string

record process =
  env :: "(string \<times> string) list"
  buffer_commands :: bool
  conn :: "connection option"
  console :: "console_line list"
  exit_code :: "nat option"

text \<open>The two emoji of the log lines, as their UTF-8 bytes (U+2705 and U+274C).\<close>

definition check_mark :: string where
  "check_mark = [char_of (226::nat), char_of (156::nat), char_of (133::nat)]"

definition cross_mark :: string where
  "cross_mark = [char_of (226::nat), char_of (157::nat), char_of (140::nat)]"

text \<open>The \<open>catch\<close> block: log the message, then \<open>process.exit(1)\<close>.\<close>

definition connect_failed :: "js_error \<Rightarrow> process \<Rightarrow> process" where
  "connect_failed e p =
     p\<lparr>console := console p @ [Stderr (cross_mark @ '' Error connecting to MongoDB: '' @ e)],
       exit_code := Some 1\<rparr>"

text \<open>\<open>if (!process.env.MONGODB_URI)\<close>: an absent variable and the empty string are falsy.\<close>

definition connectDB :: "(string \<Rightarrow> connect_options \<Rightarrow> connection outcome) \<Rightarrow> process \<Rightarrow> process" where
  "connectDB connect p =
     (case map_of (env p) ''MONGODB_URI'' of
        None \<Rightarrow> connect_failed ''MONGODB_URI is not defined in environment variables'' p
      | Some uri \<Rightarrow>
          if uri = [] then connect_failed ''MONGODB_URI is not defined in environment variables'' p
          else
            (let p1 = p\<lparr>buffer_commands := False\<rparr>
             in case connect uri db_options of
                  Inl e \<Rightarrow> connect_failed e p1
                | Inr c \<Rightarrow>
                    p1\<lparr>conn := Some c,
                       console := console p1 @ [Stdout (check_mark @ '' MongoDB Connected: '' @ host c)]\<rparr>))"

section \<open>Example process for the witnesses\<close>

definition demo_process :: process where
  "demo_process = \<lparr>env = [(''MONGODB_URI'', ''mongodb://db.example:27017/city'')], buffer_commands = True,
     conn = None, console = [], exit_code = None\<rparr>"

definition demo_connect :: "string \<Rightarrow> connect_options \<Rightarrow> connection outcome" where
  "demo_connect uri opts = (if maxPoolSize opts = 10 then Inr \<lparr>host = ''db.example''\<rparr> else Inl ''refused'')"

section \<open>Properties of connectDB\<close>

text \<open>C15: a missing or empty MONGODB_URI ends the process with exit code 1 before any connection attempt.\<close>
theorem connectDB_missing_uri:
  assumes "map_of (env p) ''MONGODB_URI'' = None \<or> map_of (env p) ''MONGODB_URI'' = Some []"
  shows "connectDB f p = connect_failed ''MONGODB_URI is not defined in environment variables'' p \<and>
         exit_code (connectDB f p) = Some 1 \<and> conn (connectDB f p) = conn p"
  using assms by (auto simp: connectDB_def connect_failed_def)

theorem connectDB_missing_uri_witness:
  "exit_code (connectDB demo_connect (demo_process\<lparr>env := []\<rparr>)) = Some 1"
proof -
  have "map_of (env (demo_process\<lparr>env := []\<rparr>)) ''MONGODB_URI'' = None" by simp
  from connectDB_missing_uri [OF disjI1 [OF this], of demo_connect] show ?thesis by blast
qed

text \<open>C16: connectDB either leaves a process with an open connection and command buffering off, or one that has exited with code 1.\<close>
theorem connectDB_fail_fast:
  "exit_code (connectDB f p) = Some 1 \<or>
   (\<exists>uri c. map_of (env p) ''MONGODB_URI'' = Some uri \<and> f uri db_options = Inr c \<and>
      conn (connectDB f p) = Some c \<and> buffer_commands (connectDB f p) = False \<and>
      exit_code (connectDB f p) = exit_code p)"
  by (auto simp: connectDB_def connect_failed_def Let_def split: option.splits sum.splits)

theorem connectDB_fail_fast_witness:
  "conn (connectDB demo_connect demo_process) = Some \<lparr>host = ''db.example''\<rparr>"
proof -
  have "exit_code (connectDB demo_connect demo_process) \<noteq> Some 1"
    by (simp add: connectDB_def demo_process_def demo_connect_def db_options_def)
  then obtain uri c where "map_of (env demo_process) ''MONGODB_URI'' = Some uri"
      "demo_connect uri db_options = Inr c" "conn (connectDB demo_connect demo_process) = Some c"
    using connectDB_fail_fast [of demo_connect demo_process] by blast
  then show ?thesis by (simp add: demo_process_def demo_connect_def db_options_def)
qed

text \<open>C17: with a URI and an accepting store, connectDB turns buffering off, keeps the connection and logs its host.\<close>
theorem connectDB_connected:
  assumes "map_of (env p) ''MONGODB_URI'' = Some uri" "uri \<noteq> []" "f uri db_options = Inr c"
  shows "connectDB f p =
    p\<lparr>buffer_commands := False, conn := Some c,
      console := console p @ [Stdout (check_mark @ '' MongoDB Connected: '' @ host c)]\<rparr>"
  using assms by (simp add: connectDB_def)

theorem connectDB_connected_witness:
  "connectDB demo_connect demo_process =
    demo_process\<lparr>buffer_commands := False, conn := Some \<lparr>host = ''db.example''\<rparr>,
      console := [Stdout (check_mark @ '' MongoDB Connected: db.example'')]\<rparr>"
  using connectDB_connected [of demo_process "''mongodb://db.example:27017/city''" demo_connect]
  by (simp add: demo_process_def demo_connect_def db_options_def)

end
