(* ===== verification/Concurrency.thy ===== *)
theory Concurrency
  imports Mayor_Alert
begin

text \<open>
  Requests of the route module interleaved on Node's event loop (specification section 5).
  A handler runs without interruption between two \<open>await\<close>s, so each request is a task
  suspended at one of its \<open>await\<close>s, and a step of the system resumes one task up to its
  next \<open>await\<close>, or lets a request arrive, or advances the clock. The store is shared;
  nothing orders the tasks. The steps reuse the handlers' phase functions
  (\<open>get_finish\<close>, \<open>delete_found\<close>, \<open>post_save\<close>, \<open>post_notify\<close>). Requests are those the
  middleware let through. The runs below exhibit what the code's separate \<open>await\<close>s allow.
\<close>

section \<open>Tasks and the system state\<close>

text \<open>
  \<^item> \<open>GetTask q found counted\<close>: \<open>Promise.all\<close> has sent both queries; each resolves in
    its own step, reading the store as it is then.
  \<^item> \<open>DeleteTask i found\<close>: before and after \<open>findById\<close>.
  \<^item> \<open>PostTask u b saved\<close>: before \<open>save\<close> and, once saved, before \<open>User.find\<close>.
\<close>

datatype task =
    GetTask "(string \<times> jvalue) list" "alert list outcome option" "nat outcome option"
  | DeleteTask string "alert option outcome option"
  | PostTask user "(string \<times> jvalue) list" "alert option"

record sys =
  store :: db
  pending :: "nat \<rightharpoonup> task"
  answered :: "nat \<rightharpoonup> response"
  next_req :: nat

definition arrive :: "task \<Rightarrow> sys \<Rightarrow> sys" where
  "arrive t s = s\<lparr>pending := (pending s)(next_req s \<mapsto> t), next_req := Suc (next_req s)\<rparr>"

definition answer :: "nat \<Rightarrow> response \<Rightarrow> sys \<Rightarrow> sys" where
  "answer n r s = s\<lparr>pending := (pending s)(n := None), answered := (answered s)(n \<mapsto> r)\<rparr>"

inductive cstep :: "sys \<Rightarrow> sys \<Rightarrow> bool" where
  get_arrive: "cstep s (arrive (GetTask q None None) s)"
| get_find: "pending s n = Some (GetTask q None c) \<Longrightarrow>
    cstep s (s\<lparr>pending := (pending s)(n \<mapsto>
      GetTask q (Some (find_alerts_page (store s) (get_skip q) (query_limit q))) c)\<rparr>)"
| get_count: "pending s n = Some (GetTask q f None) \<Longrightarrow>
    cstep s (s\<lparr>pending := (pending s)(n \<mapsto> GetTask q f (Some (count_documents (store s))))\<rparr>)"
| get_done: "pending s n = Some (GetTask q (Some f) (Some c)) \<Longrightarrow>
    cstep s (answer n (fst (get_finish q f c (store s))) s)"
| delete_arrive: "cstep s (arrive (DeleteTask i None) s)"
| delete_find: "pending s n = Some (DeleteTask i None) \<Longrightarrow>
    cstep s (s\<lparr>pending := (pending s)(n \<mapsto> DeleteTask i (Some (find_by_id (store s) i)))\<rparr>)"
| delete_done: "pending s n = Some (DeleteTask i (Some r)) \<Longrightarrow> delete_found r (store s) = (resp, d', out) \<Longrightarrow>
    cstep s (answer n resp (s\<lparr>store := d'\<rparr>))"
| post_arrive: "cstep s (arrive (PostTask u b None) s)"
| post_answer: "pending s n = Some (PostTask u b None) \<Longrightarrow> post_save u b (store s) = Inl (resp, d', out) \<Longrightarrow>
    cstep s (answer n resp (s\<lparr>store := d'\<rparr>))"
| post_saved: "pending s n = Some (PostTask u b None) \<Longrightarrow> post_save u b (store s) = Inr (a, d') \<Longrightarrow>
    cstep s (s\<lparr>store := d', pending := (pending s)(n \<mapsto> PostTask u b (Some a))\<rparr>)"
| post_done: "pending s n = Some (PostTask u b (Some a)) \<Longrightarrow>
    cstep s (answer n (fst (post_notify a (find_users_by_role (store s) [''citizen'', ''admin'']) (store s))) s)"
| tick: "cstep s (s\<lparr>store := (store s)\<lparr>clock := Suc (clock (store s))\<rparr>\<rparr>)"

section \<open>Example states\<close>

text \<open>Two DELETEs of alert 2 of \<open>demo_db\<close>, both suspended before \<open>findById\<close>.\<close>

definition race_delete_init :: sys where
  "race_delete_init =
     \<lparr>store = demo_db,
      pending = [0 \<mapsto> DeleteTask ''000000000000000000000002'' None,
                 1 \<mapsto> DeleteTask ''000000000000000000000002'' None],
      answered = Map.empty, next_req = 2\<rparr>"

text \<open>A GET of the first page and a DELETE of alert 2, both just arrived.\<close>

definition stale_get_init :: sys where
  "stale_get_init =
     \<lparr>store = demo_db,
      pending = [0 \<mapsto> GetTask [] None None, 1 \<mapsto> DeleteTask ''000000000000000000000002'' None],
      answered = Map.empty, next_req = 2\<rparr>"

text \<open>A GET of a first page of 3 and a POST by the mayor, both just arrived.\<close>

definition race_get_post_init :: sys where
  "race_get_post_init =
     \<lparr>store = demo_db,
      pending = [0 \<mapsto> GetTask [(''limit'', JStr ''3'')] None None,
                 1 \<mapsto> PostTask demo_mayor [(''title'', JStr ''Flood''), (''message'', JStr ''Stay home'')] None],
      answered = Map.empty, next_req = 2\<rparr>"

section \<open>What each phase does to the store\<close>

lemma post_save_Inl_store:
  "post_save u b d = Inl (r, d', out) \<Longrightarrow> d' = d \<or> d' = d\<lparr>next_oid := Suc (next_oid d)\<rparr>"
  by (auto simp: post_save_def Let_def new_alert_def client_error_def server_error_def
      split: if_splits sum.splits jvalue.splits prod.splits)

lemma post_save_Inr_store:
  assumes "post_save u b d = Inr (a, d')"
  shows "\<exists>t m. js_trim t \<noteq> [] \<and> js_trim m \<noteq> [] \<and> a = created_alert d u t m \<and>
           d' = d\<lparr>next_oid := Suc (next_oid d), alerts := alerts d @ [a]\<rparr>"
  using assms
  by (auto simp: post_save_def Let_def new_alert_def call_trim_def save_alert_def alert_valid_def
      created_alert_def with_fault_def split: if_splits sum.splits jvalue.splits option.splits)

lemma delete_found_store:
  "delete_found r d = (resp, d', out) \<Longrightarrow> d' = d \<or> (\<exists>k. d' = d\<lparr>alerts := filter (\<lambda>b. alert_id b \<noteq> k) (alerts d)\<rparr>)"
  by (auto simp: delete_found_def delete_remove_def server_error_def client_error_def
      split: sum.splits option.splits dest!: remove_alert_ok)

lemma alerts_wf_tick: "alerts_wf d \<Longrightarrow> alerts_wf (d\<lparr>clock := Suc (clock d)\<rparr>)"
  by (auto simp: alerts_wf_def le_Suc_eq)

lemma cstep_wf: "cstep s t \<Longrightarrow> alerts_wf (store s) \<Longrightarrow> alerts_wf (store t)"
proof (induction rule: cstep.induct)
  case (delete_done s n i r resp d' out)
  then show ?case by (auto simp: answer_def dest!: delete_found_store intro: alerts_wf_filter)
next
  case (post_answer s n u b resp d' out)
  then show ?case by (auto simp: answer_def dest!: post_save_Inl_store intro: alerts_wf_next_oid)
next
  case (post_saved s n u b a d')
  then show ?case by (auto dest!: post_save_Inr_store intro: alerts_wf_created)
qed (simp_all add: arrive_def answer_def alerts_wf_tick)

section \<open>Derived steps\<close>

lemma delete_done':
  "pending s n = Some (DeleteTask i (Some r)) \<Longrightarrow>
   cstep s (answer n (fst (delete_found r (store s))) (s\<lparr>store := fst (snd (delete_found r (store s)))\<rparr>))"
  by (rule cstep.delete_done [where out = "snd (snd (delete_found r (store s)))"]) simp_all

section \<open>Properties of interleaved runs\<close>

text \<open>C19: every interleaved run of requests keeps the collection invariant.\<close>

theorem interleaved_runs_keep_wf:
  "cstep\<^sup>*\<^sup>* s t \<Longrightarrow> alerts_wf (store s) \<Longrightarrow> alerts_wf (store t)"
  by (induction rule: rtranclp_induct) (auto intro: cstep_wf)

theorem interleaved_runs_keep_wf_witness:
  "alerts_wf (store (race_delete_init\<lparr>store := (store race_delete_init)\<lparr>clock := 6\<rparr>\<rparr>))"
proof -
  let ?t = "race_delete_init\<lparr>store := (store race_delete_init)\<lparr>clock := Suc (clock (store race_delete_init))\<rparr>\<rparr>"
  have "cstep race_delete_init ?t" by (rule cstep.tick)
  then have run: "cstep\<^sup>*\<^sup>* race_delete_init ?t" by (rule r_into_rtranclp)
  have wf: "alerts_wf (store race_delete_init)"
    by (simp add: race_delete_init_def demo_db_wf)
  from interleaved_runs_keep_wf [OF run wf] show ?thesis
    by (simp add: race_delete_init_def demo_db_def)
qed

text \<open>C20: two concurrent DELETEs of the same alert can both answer 200 "Alert deleted successfully".\<close>

theorem concurrent_deletes_both_succeed:
  "\<exists>s. cstep\<^sup>*\<^sup>* race_delete_init s \<and>
     (\<exists>r1 r2. answered s 0 = Some r1 \<and> answered s 1 = Some r2 \<and> status r1 = 200 \<and> status r2 = 200)"
  apply (rule exI, rule conjI)
   apply (rule converse_rtranclp_into_rtranclp, rule cstep.delete_find [where n = 0])
    apply (simp add: race_delete_init_def)
   apply (rule converse_rtranclp_into_rtranclp, rule cstep.delete_find [where n = 1])
    apply (simp add: race_delete_init_def)
   apply (rule converse_rtranclp_into_rtranclp, rule delete_done' [where n = 0])
    apply (simp add: race_delete_init_def)
   apply (rule converse_rtranclp_into_rtranclp, rule delete_done' [where n = 1])
    apply (simp add: answer_def race_delete_init_def)
   apply (rule rtranclp.rtrancl_refl)
  apply (simp add: answer_def race_delete_init_def delete_found_def delete_remove_def find_by_id_def
      cast_oid_def js_simps remove_alert_def demo_defs)
  done

text \<open>C21: a GET racing a DELETE can answer a page listing an alert that is no longer stored.\<close>

theorem stale_get_page:
  "\<exists>s. cstep\<^sup>*\<^sup>* stale_get_init s \<and>
     (\<exists>r als pg. answered s 0 = Some r \<and> data r = AlertsPage als pg \<and>
        (\<exists>a \<in> set als. alert_map (store s) (alert_id a) = None))"
  apply (rule exI, rule conjI)
   apply (rule converse_rtranclp_into_rtranclp, rule cstep.get_find [where n = 0])
    apply (simp add: stale_get_init_def)
   apply (rule converse_rtranclp_into_rtranclp, rule cstep.delete_find [where n = 1])
    apply (simp add: stale_get_init_def answer_def)
   apply (rule converse_rtranclp_into_rtranclp, rule delete_done' [where n = 1])
    apply (simp add: stale_get_init_def answer_def)
   apply (rule converse_rtranclp_into_rtranclp, rule cstep.get_count [where n = 0])
    apply (simp add: answer_def stale_get_init_def)
   apply (rule converse_rtranclp_into_rtranclp, rule cstep.get_done [where n = 0])
    apply (simp add: stale_get_init_def answer_def)
   apply (rule rtranclp.rtrancl_refl)
  apply (simp add: answer_def stale_get_init_def delete_found_def delete_remove_def find_by_id_def
      cast_oid_def remove_alert_def demo_defs get_eval alert_map_def)
  done

text \<open>C22: a GET racing a POST can answer a first page that leaves out the new alert, the newest of all, while its count includes it, so the page says more follow.\<close>

theorem get_count_after_post:
  "\<exists>s. cstep\<^sup>*\<^sup>* race_get_post_init s \<and>
     (\<exists>r als pg. answered s 0 = Some r \<and> data r = AlertsPage als pg \<and> hasMore pg \<and>
        (\<exists>a \<in> set (alerts (store s)). a \<notin> set als \<and> list_all (\<lambda>b. createdAt b < createdAt a) als))"
  apply (rule exI, rule conjI)
   apply (rule converse_rtranclp_into_rtranclp, rule cstep.get_find [where n = 0])
    apply (simp add: race_get_post_init_def)
   apply (rule converse_rtranclp_into_rtranclp, rule cstep.post_saved [where n = 1])
     apply (simp add: race_get_post_init_def)
    apply (simp add: race_get_post_init_def post_save_def Let_def js_simps call_trim_def new_alert_def
      save_alert_def alert_valid_def demo_defs)
   apply (rule converse_rtranclp_into_rtranclp, rule cstep.get_count [where n = 0])
    apply (simp add: race_get_post_init_def)
   apply (rule converse_rtranclp_into_rtranclp, rule cstep.get_done [where n = 0])
    apply (simp add: race_get_post_init_def)
   apply (rule rtranclp.rtrancl_refl)
  apply (simp add: answer_def race_get_post_init_def demo_defs get_eval)
  done

end
