(* ===== verification/Server.thy ===== *)
theory Server
  imports Database Mayor_Alert
begin

text \<open>
  The two files of the program put together, as the specification's control flow
  describes them (section 2): the process runs \<open>connectDB\<close> at start-up and then
  dispatches requests to the route module, whose store calls go through the connection
  \<open>connectDB\<close> opened. What joins the two is Mongoose's global state: whether a connection
  is open, and \<open>bufferCommands\<close>, which \<open>connectDB\<close> turns off (line 10). A store call
  made while no connection is open rejects at once when buffering is off; with buffering
  on it waits for a connection and, when none opens within \<open>bufferTimeoutMS\<close> (10 s),
  rejects with a time-out. This Mongoose behaviour is outside \<open>src/\<close>; it is modelled
  from the specification (section 4.1: operations issued before the connection is ready
  fail immediately).
\<close>

section \<open>Store calls without a connection\<close>

definition all_store_calls :: "store_call list" where
  "all_store_calls = [FindAlerts, CountAlerts, FindAlertById, RemoveAlert, SaveAlert, FindUsers]"

text \<open>The collection method each call of the route module issues.\<close>

fun call_name :: "store_call \<Rightarrow> string" where
  "call_name FindAlerts = ''mayoralerts.find()''"
| "call_name CountAlerts = ''mayoralerts.countDocuments()''"
| "call_name FindAlertById = ''mayoralerts.findOne()''"
| "call_name RemoveAlert = ''mayoralerts.deleteOne()''"
| "call_name SaveAlert = ''mayoralerts.insertOne()''"
| "call_name FindUsers = ''users.find()''"

definition not_ready_error :: "bool \<Rightarrow> store_call \<Rightarrow> js_error" where
  "not_ready_error buffering c =
     (if buffering then ''Operation `'' @ call_name c @ ''` buffering timed out after 10000ms''
      else ''Cannot call `'' @ call_name c @ ''` before initial connection is complete if `bufferCommands = false`. '' @
           ''Make sure you `await mongoose.connect()` if you have `bufferCommands = false`.'')"

text \<open>The store as the handlers of a process see it: unchanged once a connection is open,
  every call rejecting before.\<close>

definition store_view :: "process \<Rightarrow> db \<Rightarrow> db" where
  "store_view p d =
     (if conn p = None
      then d\<lparr>faults := map (\<lambda>c. (c, not_ready_error (buffer_commands p) c)) all_store_calls @ faults d\<rparr>
      else d)"

text \<open>One request served by the process: the route module over the store as the process
  sees it; the store's own state (its documents) is what the handler leaves.\<close>

definition serve :: "process \<Rightarrow> request \<Rightarrow> db \<Rightarrow> route_result \<times> db" where
  "serve p r d =
     (case mayor_router r (store_view p d) of
        Handled (resp, d', out) \<Rightarrow> (Handled (resp, d'\<lparr>faults := faults d\<rparr>, out), d'\<lparr>faults := faults d\<rparr>)
      | x \<Rightarrow> (x, d))"

section \<open>Example requests for the witnesses\<close>

definition demo_get :: request where
  "demo_get = \<lparr>req_method = GET, req_path = [], req_query = [], req_body = [], req_token = Some demo_mayor\<rparr>"

definition demo_post :: request where
  "demo_post = \<lparr>req_method = POST, req_path = [], req_query = [],
     req_body = [(''title'', JStr ''Flood''), (''message'', JStr ''Stay home'')], req_token = Some demo_mayor\<rparr>"

section \<open>Lemmas\<close>

lemma store_view_faults:
  "conn p = None \<Longrightarrow> map_of (faults (store_view p d)) c = Some (not_ready_error (buffer_commands p) c)"
  by (cases c) (simp_all add: store_view_def all_store_calls_def)

lemma store_view_connected [simp]: "conn p \<noteq> None \<Longrightarrow> store_view p d = d"
  by (auto simp: store_view_def)

lemma get_alerts_store: "get_alerts q d = (r, d', out) \<Longrightarrow> d' = d"
  using get_alerts_frame [of q d] by simp

lemma mayor_router_faults:
  "mayor_router r d = Handled (resp, d', out) \<Longrightarrow> faults d' = faults d"
  by (drule mayor_router_Handled)
    (auto dest!: post_alert_store delete_alert_store get_alerts_store)

lemma mayor_router_faults_restore [simp]:
  "mayor_router r d = Handled (resp, d', out) \<Longrightarrow> d'\<lparr>faults := faults d\<rparr> = d'"
  by (drule mayor_router_faults, drule sym) simp

lemma get_alerts_down:
  "map_of (faults d) FindAlerts = Some e \<Longrightarrow> get_alerts q d = (resp, d', out) \<Longrightarrow> d' = d \<and> \<not> success resp"
  by (auto simp: get_alerts_unfold find_alerts_page_def with_fault_def server_error_def Let_def
      split: option.splits sum.splits)

lemma delete_alert_down:
  "map_of (faults d) FindAlertById = Some e \<Longrightarrow> delete_alert i d = (resp, d', out) \<Longrightarrow> d' = d \<and> \<not> success resp"
  by (auto simp: delete_alert_unfold find_by_id_def with_fault_def server_error_def
      split: option.splits sum.splits)

lemma post_alert_down:
  "map_of (faults d) SaveAlert = Some e \<Longrightarrow> post_alert u b d = (resp, d', out) \<Longrightarrow>
   alerts d' = alerts d \<and> \<not> success resp"
  by (auto simp: post_alert_unfold save_alert_def new_alert_def with_fault_def server_error_def
      client_error_def Let_def split: option.splits sum.splits if_splits prod.splits)

lemma mayor_router_down:
  assumes "map_of (faults d) FindAlerts \<noteq> None" "map_of (faults d) FindAlertById \<noteq> None"
    and "map_of (faults d) SaveAlert \<noteq> None" "mayor_router r d = Handled (resp, d', out)"
  shows "alerts d' = alerts d \<and> \<not> success resp"
  using mayor_router_Handled [OF assms(4)] assms(1-3)
  by (auto dest: get_alerts_down delete_alert_down post_alert_down)

section \<open>Properties of the composed program\<close>

text \<open>C23: a request served while no connection is open writes no alert and is not answered with success, whatever the buffering setting.\<close>

theorem serve_before_connection:
  assumes "conn p = None" "serve p r d = (Handled (resp, d1, out), d')"
  shows "alerts d' = alerts d \<and> \<not> success resp"
proof -
  let ?v = "store_view p d"
  have down: "map_of (faults ?v) c \<noteq> None" for c using store_view_faults [OF assms(1)] by simp
  obtain d'' where r: "mayor_router r ?v = Handled (resp, d'', out)" and "d' = d''\<lparr>faults := faults d\<rparr>"
    using assms(2) by (auto simp: serve_def split: route_result.splits prod.splits)
  moreover have "alerts ?v = alerts d" by (simp add: store_view_def)
  ultimately show ?thesis using mayor_router_down [OF down down down r] by simp
qed

theorem serve_before_connection_witness:
  "\<exists>resp d1 out d'. serve demo_process demo_post demo_db = (Handled (resp, d1, out), d') \<and>
     alerts d' = alerts demo_db \<and> \<not> success resp"
proof -
  obtain x d' where s: "serve demo_process demo_post demo_db = (x, d')" by fastforce
  have "\<exists>resp d1 out. x = Handled (resp, d1, out)"
    using s by (auto simp: serve_def mayor_router_def guarded_def mayor_guard_def protect_def authorize_def demo_post_def demo_defs
        split: route_result.splits prod.splits)
  then obtain resp d1 out where x: "x = Handled (resp, d1, out)" by blast
  have "conn demo_process = None" by (simp add: demo_process_def)
  from serve_before_connection [OF this s [unfolded x]] s x show ?thesis by blast
qed

text \<open>C24: with buffering off and no connection, a mayor's GET fails at once: 500, with Mongoose's bufferCommands message echoed in the error field, and nothing else changes.\<close>

theorem get_fails_fast:
  assumes "conn p = None" "\<not> buffer_commands p" "req_method r = GET" "req_path r = []"
    and "req_token r = Some u" "role u = ''mayor''"
  shows "serve p r d =
    (Handled (server_error ''Error fetching mayor alerts:'' ''Server error while fetching alerts''
       (not_ready_error False FindAlerts) d), d)"
  using assms store_view_faults [OF assms(1), of d FindAlerts]
  by (simp add: serve_def mayor_router_def guarded_def mayor_guard_def protect_def authorize_def
      get_alerts_unfold find_alerts_page_def
      server_error_def Let_def store_view_def)

theorem get_fails_fast_witness:
  "serve (demo_process\<lparr>buffer_commands := False\<rparr>) demo_get demo_db =
    (Handled (server_error ''Error fetching mayor alerts:'' ''Server error while fetching alerts''
       (not_ready_error False FindAlerts) demo_db), demo_db)"
  by (rule get_fails_fast [of _ _ demo_mayor]) (simp_all add: demo_process_def demo_get_def demo_mayor_def)

end
