(* ===== verification/Envelope.thy ===== *)
theory Envelope
  imports Mayor_Alert
begin

text \<open>
  The bodies the handlers send with \<open>res.json\<close>, as JSON values. Each response object
  literal of the route module writes its keys in the order \<open>success\<close>, \<open>message\<close>,
  \<open>data\<close>, \<open>error\<close>, leaving out those it does not have. An alert goes out as Mongoose
  serialises the document: its \<open>_id\<close> and \<open>sentBy\<close> as 24 lowercase hexadecimal digits
  (\<open>ObjectId.prototype.toJSON\<close>), \<open>createdAt\<close> as \<open>Date.prototype.toJSON\<close> prints it
  (ISO 8601, UTC, milliseconds). The fields of an alert follow the specification's data
  model (section 3), the schema being outside \<open>src/\<close>.
\<close>

section \<open>Printing numbers with a fixed width\<close>

definition hex_digit :: "nat \<Rightarrow> char" where
  "hex_digit d = (if d < 10 then char_of (48 + d) else char_of (87 + d))"

text \<open>The last \<open>w\<close> digits of \<open>n\<close> in base \<open>b\<close>, most significant first.\<close>

fun pad_digits :: "(nat \<Rightarrow> 'a) \<Rightarrow> nat \<Rightarrow> nat \<Rightarrow> nat \<Rightarrow> 'a list" where
  "pad_digits dig b 0 n = []"
| "pad_digits dig b (Suc w) n = pad_digits dig b w (n div b) @ [dig (n mod b)]"

definition oid_hex :: "oid \<Rightarrow> string" where
  "oid_hex n = pad_digits hex_digit 16 24 n"

definition dec_pad :: "nat \<Rightarrow> nat \<Rightarrow> string" where
  "dec_pad w n = pad_digits dec_digit 10 w n"

section \<open>Dates\<close>

text \<open>The proleptic Gregorian date of a day count since 1970-01-01, by eras of 400 years
  starting on 1 March (the civil-from-days computation of the ECMAScript date functions).\<close>

definition civil_of_days :: "nat \<Rightarrow> nat \<times> nat \<times> nat" where
  "civil_of_days days =
     (let z = days + 719468; era = z div 146097; doe = z - era * 146097;
          yoe = (doe - doe div 1460 + doe div 36524 - doe div 146096) div 365;
          doy = doe - (365 * yoe + yoe div 4 - yoe div 100);
          mp = (5 * doy + 2) div 153;
          dd = doy - (153 * mp + 2) div 5 + 1;
          mm = (if mp < 10 then mp + 3 else mp - 9);
          yy = yoe + era * 400 + (if mm \<le> 2 then 1 else 0)
      in (yy, mm, dd))"

text \<open>\<open>Date.prototype.toJSON\<close> of a time value in milliseconds since the epoch: years
  past 9999 take the six-digit form with a sign.\<close>

definition iso_date :: "timestamp \<Rightarrow> string" where
  "iso_date t =
     (let (yy, mm, dd) = civil_of_days (t div 86400000); ms = t mod 86400000
      in (if yy \<le> 9999 then dec_pad 4 yy else CHR ''+'' # dec_pad 6 yy) @ ''-'' @ dec_pad 2 mm @ ''-'' @ dec_pad 2 dd @
         ''T'' @ dec_pad 2 (ms div 3600000) @ '':'' @ dec_pad 2 (ms div 60000 mod 60) @ '':'' @
         dec_pad 2 (ms div 1000 mod 60) @ ''.'' @ dec_pad 3 (ms mod 1000) @ ''Z'')"

section \<open>Response bodies\<close>

definition alert_json :: "alert \<Rightarrow> jvalue" where
  "alert_json a =
     JObj [(''_id'', JStr (oid_hex (alert_id a))), (''title'', JStr (title a)), (''message'', JStr (message a)),
           (''sentBy'', JStr (oid_hex (sentBy a))), (''createdAt'', JStr (iso_date (createdAt a)))]"

definition payload_json :: "payload \<Rightarrow> (string \<times> jvalue) list" where
  "payload_json p =
     (case p of
        NoData \<Rightarrow> []
      | AlertsPage als pg \<Rightarrow>
          [(''data'', JObj [(''alerts'', JArr (map alert_json als)),
             (''pagination'', JObj [(''current'', JNum (current pg)), (''total'', JNum (total pg)),
                                    (''hasMore'', JBool (hasMore pg))])])]
      | AlertDoc a \<Rightarrow> [(''data'', JObj [(''alert'', alert_json a)])])"

definition envelope :: "response \<Rightarrow> jvalue" where
  "envelope r =
     JObj ([(''success'', JBool (success r))] @
           (case resp_message r of None \<Rightarrow> [] | Some m \<Rightarrow> [(''message'', JStr m)]) @
           payload_json (data r) @
           (case resp_error r of None \<Rightarrow> [] | Some e \<Rightarrow> [(''error'', JStr e)]))"

section \<open>The interface of the specification (section 6) as JSON types\<close>

datatype jtype = TStr | TNum | TBool | TArr jtype | TObj "(string \<times> jtype) list"

text \<open>A value has a type when its kind matches, arrays element-wise, and objects carry
  exactly the listed keys in the listed order.\<close>

fun has_type :: "jtype \<Rightarrow> jvalue \<Rightarrow> bool" where
  "has_type TStr v = (case v of JStr _ \<Rightarrow> True | _ \<Rightarrow> False)"
| "has_type TNum v = (case v of JNum _ \<Rightarrow> True | _ \<Rightarrow> False)"
| "has_type TBool v = (case v of JBool _ \<Rightarrow> True | _ \<Rightarrow> False)"
| "has_type (TArr t) v = (case v of JArr vs \<Rightarrow> list_all (has_type t) vs | _ \<Rightarrow> False)"
| "has_type (TObj fs) v =
     (case v of
        JObj kvs \<Rightarrow> map fst kvs = map fst fs \<and> list_all2 (\<lambda>f kv. has_type (snd f) (snd kv)) fs kvs
      | _ \<Rightarrow> False)"

definition alert_type :: jtype where
  "alert_type = TObj [(''_id'', TStr), (''title'', TStr), (''message'', TStr), (''sentBy'', TStr), (''createdAt'', TStr)]"

text \<open>The table of section 6: the body of each answer by method and status.\<close>

definition response_type :: "http_method \<Rightarrow> nat \<Rightarrow> jtype" where
  "response_type m s =
     (if s = 500 then TObj [(''success'', TBool), (''message'', TStr), (''error'', TStr)]
      else if s = 200 \<and> (m = GET \<or> m = HEAD) then
        TObj [(''success'', TBool),
              (''data'', TObj [(''alerts'', TArr alert_type),
                              (''pagination'', TObj [(''current'', TNum), (''total'', TNum), (''hasMore'', TBool)])])]
      else if s = 200 \<and> m = POST then
        TObj [(''success'', TBool), (''message'', TStr), (''data'', TObj [(''alert'', alert_type)])]
      else TObj [(''success'', TBool), (''message'', TStr)])"

section \<open>Example request for the witnesses\<close>

definition demo_delete :: request where
  "demo_delete = \<lparr>req_method = DELETE, req_path = [''000000000000000000000007''], req_query = [], req_body = [],
     req_token = Some demo_mayor\<rparr>"

section \<open>Lemmas\<close>

definition answer_ok :: "http_method \<Rightarrow> response \<Rightarrow> bool" where
  "answer_ok m resp \<longleftrightarrow>
     has_type (response_type m (status resp)) (envelope resp) \<and> success resp = (status resp = 200) \<and>
     status resp \<in> {200, 400, 404, 500}"

lemma alert_json_type [simp]: "has_type alert_type (alert_json a)"
  by (simp add: alert_type_def alert_json_def)

lemma list_all_alert_json [simp]: "list_all (has_type alert_type) (map alert_json als)"
  by (induction als) simp_all

lemma server_error_ok [simp]: "answer_ok m (fst (server_error p msg e d))"
  by (simp add: answer_ok_def server_error_def envelope_def payload_json_def response_type_def)

lemma client_error_ok: "s = 400 \<or> s = 404 \<Longrightarrow> answer_ok m (fst (client_error s msg d))"
  by (auto simp: answer_ok_def client_error_def envelope_def payload_json_def response_type_def)

lemma get_alerts_ok: "m = GET \<or> m = HEAD \<Longrightarrow> answer_ok m (fst (get_alerts q d))"
  by (auto simp: get_alerts_unfold Let_def split: sum.splits,
      auto simp: answer_ok_def envelope_def payload_json_def response_type_def)

lemma delete_alert_ok: "answer_ok DELETE (fst (delete_alert i d))"
  by (auto simp: delete_alert_unfold client_error_ok split: sum.splits option.splits,
      simp add: answer_ok_def envelope_def payload_json_def response_type_def)

lemma post_alert_ok: "answer_ok POST (fst (post_alert u b d))"
  by (auto simp: post_alert_unfold Let_def client_error_ok split: sum.splits option.splits prod.splits if_splits,
      auto simp: answer_ok_def envelope_def payload_json_def response_type_def server_error_def)

lemma length_pad_digits [simp]: "length (pad_digits dig b w n) = w"
  by (induction w arbitrary: n) simp_all

lemma get_alerts_answer_ok: "get_alerts q d = (resp, d', out) \<Longrightarrow> m = GET \<or> m = HEAD \<Longrightarrow> answer_ok m resp"
  using get_alerts_ok [of m q d] by simp

lemma delete_alert_answer_ok: "delete_alert i d = (resp, d', out) \<Longrightarrow> answer_ok DELETE resp"
  using delete_alert_ok [of i d] by simp

lemma post_alert_answer_ok: "post_alert u b d = (resp, d', out) \<Longrightarrow> answer_ok POST resp"
  using post_alert_ok [of u b d] by simp

lemma mayor_router_ok: "mayor_router r d = Handled (resp, d', out) \<Longrightarrow> answer_ok (req_method r) resp"
  by (drule mayor_router_Handled)
    (auto intro: get_alerts_answer_ok delete_alert_answer_ok post_alert_answer_ok)

section \<open>Properties of the response bodies\<close>

text \<open>C25: every answer the route module gives has the JSON shape of the specification's interface table (section 6) for its method and status, reports success exactly for status 200, and uses only the statuses 200, 400, 404 and 500.\<close>

theorem router_answers_typed:
  "mayor_router r d = Handled (resp, d', out) \<Longrightarrow>
   has_type (response_type (req_method r) (status resp)) (envelope resp) \<and>
   success resp = (status resp = 200) \<and> status resp \<in> {200, 400, 404, 500}"
  using mayor_router_ok [of r d resp d' out] by (simp add: answer_ok_def)

theorem router_answers_typed_witness:
  "\<exists>resp d' out. mayor_router demo_delete demo_db = Handled (resp, d', out) \<and> status resp = 404 \<and>
     has_type (response_type DELETE (status resp)) (envelope resp)"
proof -
  have r: "mayor_router demo_delete demo_db = Handled (client_error 404 ''Alert not found'' demo_db)"
    by (simp add: mayor_router_def guarded_def mayor_guard_def protect_def authorize_def demo_delete_def
        demo_defs delete_alert_unfold find_by_id_def cast_oid_def js_simps)
  have "status (fst (client_error 404 ''Alert not found'' demo_db)) = 404" by (simp add: client_error_def)
  moreover have "req_method demo_delete = DELETE" by (simp add: demo_delete_def)
  ultimately show ?thesis
    using router_answers_typed [of demo_delete demo_db "fst (client_error 404 ''Alert not found'' demo_db)"] r
    by (auto simp: client_error_def)
qed

end
