(* ===== verification/Spec2Isabelle.thy ===== *)
theory Spec2Isabelle
  imports Mayor_Alert Database Concurrency Server Envelope
begin

text \<open>
  \<^bold>\<open>A verification development of the mayor-alert feature of Smart_City.\<close>

  \<^bold>\<open>The program.\<close> Two files. \<open>src/server/config/database.js\<close> holds \<open>connectDB\<close>,
  which reads \<open>MONGODB_URI\<close>, turns Mongoose's command buffering off and opens the one
  process-wide connection, or logs and calls \<open>process.exit(1)\<close>.
  \<open>src/server/routes/mayorAlert.js\<close> is an Express router with three handlers behind
  the middleware \<open>protect, authorize('mayor')\<close>: \<open>GET /\<close> lists alerts page by page
  (parseInt of the query, skip and limit over the alerts sorted by \<open>createdAt\<close> descending,
  a concurrent count, \<open>Math.ceil\<close> for the page count), \<open>DELETE /:id\<close> finds an alert by
  id and removes it, \<open>POST /\<close> checks, trims and saves a new alert and looks up the
  citizens and admins it would notify. Every store failure is caught and answered with
  a 500 envelope echoing \<open>error.message\<close>.

  \<^bold>\<open>Theories and how they model the code.\<close>
  \<^item> \<open>Prelude\<close>: type names (\<open>oid\<close>, \<open>uid\<close>, \<open>timestamp\<close>, \<open>js_error\<close>), the result type
    \<open>'a outcome = js_error + 'a\<close> of an awaited call (\<open>Inl\<close> = rejected), console lines,
    the rule collections \<open>js_simps\<close>, \<open>store_simps\<close>, \<open>handler_defs\<close>, generic list lemmas.
  \<^item> \<open>JS_Runtime\<close>: the JavaScript built-ins the code calls: JSON/query values
    (\<open>jvalue\<close>), truthiness (\<open>js_truthy\<close>, \<open>js_or_default\<close> for \<open>x || d\<close>),
    \<open>String.prototype.trim\<close> (\<open>js_trim\<close>, ASCII white space), \<open>parseInt\<close> without radix
    (\<open>js_parse_int\<close>: leading white space, sign, \<open>0x\<close> prefix, longest digit prefix, NaN as
    \<open>None\<close>), \<open>String(v)\<close>, decimal printing, and \<open>Math.ceil(a / b)\<close> as
    \<open>js_ceil_div\<close>. Lemmas used by the handlers' proofs: trim is idempotent, \<open>parseInt\<close>
    reads back every printed integer, \<open>js_ceil_div\<close> is the real ceiling.
  \<^item> \<open>Store\<close>: the Mongoose collections as a record \<open>db\<close> (alerts in natural order,
    users, the next ObjectId, the clock, the calls that currently reject, whether
    \<open>Document.remove\<close> exists) and one definition per Mongoose call of the handlers:
    \<open>find_alerts_page\<close> (find/sort/skip/limit, a negative skip rejected by the server),
    \<open>count_documents\<close>, \<open>find_by_id\<close> (with the ObjectId cast \<open>cast_oid\<close> of bson 4,
    the version under the Mongoose releases that have \<open>Document.remove\<close>: 24 hex digits or
    any 12-character single-byte string),
    \<open>remove_alert\<close>, \<open>new_alert\<close>/\<open>save_alert\<close> (schema validation, \<open>createdAt\<close> stamp),
    \<open>find_users_by_role\<close>. The abstraction \<open>alert_map\<close> views the collection as a map from
    ids to alerts; \<open>alerts_wf\<close> is its invariant (unique ids below the next id, valid,
    trimmed, not from the future).
  \<^item> \<open>Auth\<close>: \<open>protect\<close> and \<open>authorize\<close>, whose code is outside \<open>src/\<close>, from the
    specification: a request passes only with an authenticated caller of role \<open>mayor\<close>.
  \<^item> \<open>Mayor_Alert\<close>: responses (\<open>response\<close>, \<open>pagination\<close>, \<open>payload\<close>), the handlers
    \<open>get_alerts\<close>, \<open>delete_alert\<close>, \<open>post_alert\<close> (each store, response and console lines
    in, out), with every \<open>await\<close> a case split and every \<open>catch\<close> its \<open>Inl\<close> branch, and
    \<open>mayor_router\<close>, the route table with Express's dispatch: method and path are
    matched before the guard runs, \<open>HEAD /\<close> is served by the GET route, \<open>OPTIONS\<close>
    is answered by Express with the matching methods, anything else is passed on.
  \<^item> \<open>Database\<close>: \<open>connectDB\<close> over a \<open>process\<close> record (environment, buffering flag,
    connection, console, exit code); \<open>mongoose.connect\<close> is a parameter, so every answer
    of the store is covered; \<open>db_options\<close> is the options literal.
  \<^item> \<open>Concurrency\<close>: requests interleaved on the event loop (specification section 5)
    as an \<open>inductive\<close> step relation \<open>cstep\<close> over a system state \<open>sys\<close> (the shared store,
    the requests suspended at an \<open>await\<close>, the answers given). Each step resumes one
    request up to its next \<open>await\<close> through the handlers' phase functions (\<open>get_finish\<close>,
    \<open>delete_found\<close>, \<open>post_save\<close>, \<open>post_notify\<close>), so the two queries of the GET's
    \<open>Promise.all\<close> read the store at different moments. Proved: every run keeps
    \<open>alerts_wf\<close>; and three runs the code allows: two DELETEs of one alert both answering
    200, a GET listing an alert a concurrent DELETE has already removed, and a GET whose
    count is taken after a concurrent POST, so its first page omits the new alert yet
    announces more.
  \<^item> \<open>Server\<close>: the two files put together (specification section 2) through Mongoose's
    global state. \<open>store_view\<close> is the store as a handler sees it: every call rejects
    while no connection is open, at once with \<open>bufferCommands\<close> off (line 10 of
    \<open>database.js\<close>), after the 10 s buffer time-out with it on; \<open>serve\<close> runs the router
    over it. Proved: nothing is written and nothing succeeds before a connection is open;
    a GET then fails fast with Mongoose's message.
  \<^item> \<open>Envelope\<close>: the bodies of \<open>res.json\<close> as JSON values (\<open>envelope\<close>), keys in the order
    of the code's literals, ObjectIds as 24 hex digits (\<open>oid_hex\<close>), \<open>createdAt\<close> as
    \<open>Date.prototype.toJSON\<close> prints it (\<open>iso_date\<close>, civil-from-days). The interface
    table of specification section 6 is a set of JSON types (\<open>response_type\<close>,
    \<open>has_type\<close>). Proved: every routed answer has its table type, success exactly at 200.
  \<^item> This theory: properties that span the handlers, the equivalence of the code's
    \<open>hasMore\<close> with \<open>current < total\<close> for positive page and limit, the insert-then-list
    round trip (after a POST, the next GET's first page starts with the new alert when
    the stored alerts are older than the clock).

  \<^bold>\<open>What is proved.\<close> GET answers exactly the window \<open>[(page-1)*limit, page*limit)\<close> of the
  alerts newest first, with \<open>total = \<lceil>n/limit\<rceil>\<close> (the least number of pages covering the
  collection) and \<open>hasMore \<longleftrightarrow> page*limit < n\<close>, equivalently \<open>current < total\<close>;
  its page never exceeds the limit and is sorted; POST stores exactly one trimmed alert
  owned by the caller, and rejects falsy fields with 400 without writing; DELETE refines
  map deletion \<open>alert_map d' = (alert_map d)(k := None)\<close> and answers 404 for a well-formed
  unknown id; every routed request keeps \<open>alerts_wf\<close>; only a mayor reaches a handler;
  a deleted id never shows up on a later page; \<open>connectDB\<close> either connects with
  buffering off or exits with code 1, and never tries to connect without a URI.

  \<^bold>\<open>Where the code and the specification part.\<close> Proved as theorems of
  \<open>Mayor_Alert\<close>: a failing user lookup after the save answers 500 although the alert is
  stored (the specification calls the lookup best-effort); a title or message of white
  space only passes the 400 guard and fails validation with 500; an id that is not an
  ObjectId (the specification's \<open>abc123\<close>) gives 500, not 404; a negative \<open>page\<close> is
  accepted by \<open>parseInt || 1\<close> and makes the store reject the skip (500); without
  \<open>Document.remove\<close> (Mongoose 7 and later) no alert can be deleted.

  \<^bold>\<open>Bounds and choices.\<close> No loop of the code is unbounded: the digit scan of \<open>parseInt\<close>,
  \<open>trim\<close> and the fixed-width printers are structural recursions, so no fuel is needed;
  no claim here is about the termination of the event loop, whose model resolves every
  \<open>await\<close> by construction. Dates are printed from milliseconds since the epoch
  (non-negative, as \<open>Date.now()\<close>). Numbers from \<open>parseInt\<close> are \<open>int\<close>: exact where
  JavaScript is exact (below 2^53, the bound the page read-back claim carries); above it
  JavaScript rounds, and a skip or limit beyond 64 bits, which MongoDB rejects, is not
  modelled. When both queries of the GET's \<open>Promise.all\<close> reject, the
  model reports the find's error (JavaScript reports whichever rejects first). Ties in
  \<open>createdAt\<close> keep natural order (MongoDB leaves it open).

  \<^bold>\<open>Not modelled.\<close> Express itself (body and query parsing, the 404 of an unmatched route,
  the HTTP status line), Mongoose and MongoDB beyond the calls above, the schemas (from the
  specification), the connection pool's run-time behaviour (only the options passed are
  modelled), a connection opening while buffered calls wait (a buffered call is modelled
  as timing out), Unicode white space, the ObjectId casts of later bson versions, \<open>__v\<close> and other keys
  Mongoose may add to a document's JSON, and time-outs of the pool. Notification delivery
  does not exist in the code (a comment at lines 105--110); only the user lookup and the
  log line are modelled.
\<close>

section \<open>Lemmas on pagination\<close>

lemma js_ceil_div_gt_iff: "0 < l \<Longrightarrow> p < js_ceil_div n l \<longleftrightarrow> p * l < n"
proof -
  assume l: "0 < l"
  have "p < js_ceil_div n l \<longleftrightarrow> real_of_int p < real_of_int n / real_of_int l"
    by (simp add: js_ceil_div_real less_ceiling_iff)
  also have "\<dots> \<longleftrightarrow> real_of_int p * real_of_int l < real_of_int n"
    using l by (simp add: pos_less_divide_eq)
  also have "\<dots> \<longleftrightarrow> p * l < n" by (simp flip: of_int_mult)
  finally show ?thesis .
qed

lemma get_alerts_pagination:
  assumes "get_alerts q d = (r, d', out)" "data r = AlertsPage als pg"
  shows "count_documents d = Inr (length (alerts d)) \<and>
         pg = \<lparr>current = query_page q, total = js_ceil_div (int (length (alerts d))) (query_limit q),
               hasMore = get_skip q + int (length als) < int (length (alerts d))\<rparr>"
  using assms
  by (auto simp: get_alerts_unfold Let_def server_error_def count_documents_def with_fault_def
      split: sum.splits option.splits)

section \<open>Properties across the handlers\<close>

text \<open>C8: after a DELETE that succeeds, no later GET page contains the deleted id.\<close>
theorem delete_then_get_excludes:
  assumes "delete_alert i d = (r, d', out)" "success r" "cast_oid i = Some k"
    and "get_alerts q d' = (r2, d'', out2)" "data r2 = AlertsPage als pg"
  shows "k \<notin> alert_id ` set als"
  using delete_alert_success_gone [OF assms(1-3)] get_alerts_subset [OF assms(4,5)] by blast

theorem delete_then_get_excludes_witness:
  "\<exists>r d' out r2 d'' out2 als pg.
     delete_alert ''000000000000000000000002'' demo_db = (r, d', out) \<and> success r \<and>
     get_alerts [] d' = (r2, d'', out2) \<and> data r2 = AlertsPage als pg \<and> 2 \<notin> alert_id ` set als"
proof -
  obtain r d' out where del: "delete_alert ''000000000000000000000002'' demo_db = (r, d', out)"
    by (cases "delete_alert ''000000000000000000000002'' demo_db") auto
  obtain r2 d'' out2 where get: "get_alerts [] d' = (r2, d'', out2)" by (cases "get_alerts [] d'") auto
  have cast: "cast_oid ''000000000000000000000002'' = Some 2" by (simp add: cast_oid_def js_simps)
  have d': "d' = demo_db\<lparr>alerts := [demo_alert 1, demo_alert 3]\<rparr>" and ok: "success r"
    using del cast by (auto simp: delete_alert_unfold find_by_id_def remove_alert_def demo_defs)
  have "data r2 = AlertsPage [demo_alert 3, demo_alert 1] \<lparr>current = 1, total = 1, hasMore = False\<rparr>"
    using get by (auto simp: d' get_eval demo_defs)
  with del ok get show ?thesis using delete_then_get_excludes [OF del ok cast get] by blast
qed

text \<open>C26: for a positive page and limit, the code's hasMore (skip + alerts.length < total count) is equivalent to the reference reading of the pagination object: the current page is before the last page (current < total).\<close>

theorem hasMore_iff_next_page:
  assumes "get_alerts q d = (r, d', out)" "data r = AlertsPage als pg"
    and "0 < query_page q" "0 < query_limit q"
  shows "hasMore pg \<longleftrightarrow> current pg < total pg"
proof -
  obtain P L where P: "query_page q = int P" "0 < P" and L: "query_limit q = int L" "0 < L"
    using assms(3,4) by (metis of_nat_0_less_iff zero_less_imp_eq_int)
  let ?xs = "sort_createdAt_desc (alerts d)"
  have als: "als = take L (drop ((P - 1) * L) ?xs)"
    using get_alerts_AlertsPage [OF assms(1,2)] P L by (simp add: mongo_limit_def nat_mult_distrib nat_diff_distrib)
  have pg: "pg = \<lparr>current = int P, total = js_ceil_div (int (length (alerts d))) (int L),
               hasMore = get_skip q + int (length als) < int (length (alerts d))\<rparr>"
    using get_alerts_pagination [OF assms(1,2)] P L by simp
  have skip: "get_skip q = int ((P - 1) * L)" using P L by (simp add: get_skip_def of_nat_diff)
  have "hasMore pg \<longleftrightarrow> (P - 1) * L + length als < length (alerts d)"
    using pg skip by (simp flip: of_nat_mult of_nat_add)
  also have "\<dots> \<longleftrightarrow> P * L < length (alerts d)"
    using window_hasMore [OF P(2), of L ?xs] als by simp
  also have "\<dots> \<longleftrightarrow> current pg < total pg"
    using pg L js_ceil_div_gt_iff [of "int L" "int P" "int (length (alerts d))"] by (simp flip: of_nat_mult)
  finally show ?thesis .
qed

theorem hasMore_iff_next_page_witness:
  "data (fst (get_alerts [(''limit'', JStr ''2'')] demo_db)) =
     AlertsPage [demo_alert 3, demo_alert 2] \<lparr>current = 1, total = 2, hasMore = True\<rparr> \<and>
   (hasMore \<lparr>current = 1, total = 2, hasMore = True\<rparr> \<longleftrightarrow>
    current \<lparr>current = 1, total = 2, hasMore = True\<rparr> < pagination.total \<lparr>current = 1, total = 2, hasMore = True\<rparr>)"
proof -
  let ?q = "[(''limit'', JStr ''2'')]"
  let ?pg = "\<lparr>current = 1, total = 2, hasMore = True\<rparr>"
  obtain r d' out where g: "get_alerts ?q demo_db = (r, d', out)" by (cases "get_alerts ?q demo_db") auto
  have r: "data r = AlertsPage [demo_alert 3, demo_alert 2] ?pg"
    using g by (auto simp: get_eval demo_defs)
  have "0 < query_page ?q" "0 < query_limit ?q" by (simp_all add: js_simps)
  with hasMore_iff_next_page [OF g r] r g show ?thesis by simp
qed

text \<open>C27: insert then list: after a POST that succeeds, on a store whose alerts are all older than the clock, page 1 of the next GET starts with the alert the POST returned.\<close>

theorem post_then_get_newest_first:
  assumes "post_alert u b d = (r, d1, out)" "status r = 200"
    and "\<forall>x \<in> set (alerts d). createdAt x < clock d"
    and "map_of (faults d) FindAlerts = None" "map_of (faults d) CountAlerts = None"
  shows "\<exists>a als pg r2 out2. data r = AlertDoc a \<and> get_alerts [] d1 = (r2, d1, out2) \<and>
           data r2 = AlertsPage (a # als) pg"
proof -
  obtain t m where r: "data r = AlertDoc (created_alert d u t m)"
    and d1: "d1 = d\<lparr>next_oid := Suc (next_oid d), alerts := alerts d @ [created_alert d u t m]\<rparr>"
    using post_alert_success [OF assms(1,2)] by blast
  let ?a = "created_alert d u t m"
  have "sort_createdAt_desc (alerts d1) = ?a # sort_createdAt_desc (alerts d)"
    using assms(3) d1 sort_key_snoc_least [of "alerts d" "\<lambda>x. - int (createdAt x)" ?a]
    by (simp add: sort_createdAt_desc_def created_alert_def)
  then have "data (fst (get_alerts [] d1)) =
      AlertsPage (?a # take 9 (sort_createdAt_desc (alerts d)))
        \<lparr>current = 1, total = js_ceil_div (int (length (alerts d1))) 10,
         hasMore = int (length (take 9 (sort_createdAt_desc (alerts d)))) + 1 < int (length (alerts d1))\<rparr>"
       "get_alerts [] d1 = (fst (get_alerts [] d1), d1, [])"
    using assms(4,5) d1 by (simp_all add: get_alerts_unfold js_simps find_alerts_page_def count_documents_def
        mongo_limit_def Let_def)
  with r show ?thesis by (metis prod.collapse)
qed

theorem post_then_get_newest_first_witness:
  "\<exists>a als pg r2 out2.
     data (fst (post_alert demo_mayor [(''title'', JStr ''Flood''), (''message'', JStr ''Stay home'')] demo_db)) = AlertDoc a \<and>
     get_alerts [] (fst (snd (post_alert demo_mayor [(''title'', JStr ''Flood''), (''message'', JStr ''Stay home'')] demo_db))) =
       (r2, fst (snd (post_alert demo_mayor [(''title'', JStr ''Flood''), (''message'', JStr ''Stay home'')] demo_db)), out2) \<and>
     data r2 = AlertsPage (a # als) pg"
proof -
  let ?b = "[(''title'', JStr ''Flood''), (''message'', JStr ''Stay home'')]"
  obtain r d1 out where p: "post_alert demo_mayor ?b demo_db = (r, d1, out)" by (cases "post_alert demo_mayor ?b demo_db") auto
  have "status r = 200"
    using p by (auto simp: post_alert_unfold Let_def js_simps call_trim_def new_alert_def save_alert_def
        alert_valid_def find_users_by_role_def demo_defs)
  moreover have "\<forall>x \<in> set (alerts demo_db). createdAt x < clock demo_db" by (simp add: demo_defs)
  moreover have "map_of (faults demo_db) FindAlerts = None" "map_of (faults demo_db) CountAlerts = None"
    by (simp_all add: demo_db_def)
  ultimately show ?thesis using post_then_get_newest_first [OF p] p by simp
qed

end
